theory Spec2Isabelle
  imports Complex_Main "HOL-Library.AList"
begin

section \<open>Python values and dictionaries\<close>

text \<open>
  A Python \<^verbatim>\<open>str\<close> is a sequence of Unicode code points. The alias table of the
  checkpoint loader and the messages of the stages hold Chinese text, and the word counter
  works on code points, so a string is a list of code points. \<open>ascii\<close> embeds an ASCII
  literal.
\<close>

type_synonym pystr = "nat list"

definition ascii :: "string \<Rightarrow> pystr" where
  "ascii s = map of_char s"

text \<open>The enumerations of \<^verbatim>\<open>src/core/state.py\<close>. Each is a \<^verbatim>\<open>(str, Enum)\<close>.\<close>

datatype ValidationStatus = PENDING | IN_PROGRESS | VALIDATED | NEEDS_REVISION | FAILED

datatype AgentName =
  COORDINATOR | UNDERSTANDING | STRUCTURING | KNOWLEDGE | WRITING | VALIDATION | REVISION

datatype AnalysisIntent =
  OVERVIEW | COMPARISON | CAUSAL_ANALYSIS | TREND_PREDICTION | PROS_CONS | SOLUTION_PROPOSAL

datatype DomainCategory =
  AI | BUSINESS_MODEL | SUSTAINABILITY | SOCIAL_CHANGE | LIFE_SCIENCES | GLOBAL_AFFAIRS | GENERAL

fun status_value :: "ValidationStatus \<Rightarrow> pystr" where
  "status_value PENDING = ascii ''pending''"
| "status_value IN_PROGRESS = ascii ''in_progress''"
| "status_value VALIDATED = ascii ''validated''"
| "status_value NEEDS_REVISION = ascii ''needs_revision''"
| "status_value FAILED = ascii ''failed''"

fun agent_value :: "AgentName \<Rightarrow> pystr" where
  "agent_value COORDINATOR = ascii ''chief_coordinator_agent''"
| "agent_value UNDERSTANDING = ascii ''problem_understanding_agent''"
| "agent_value STRUCTURING = ascii ''report_structure_planning_agent''"
| "agent_value KNOWLEDGE = ascii ''knowledge_retrieval_agent''"
| "agent_value WRITING = ascii ''report_writing_agent''"
| "agent_value VALIDATION = ascii ''validation_agent''"
| "agent_value REVISION = ascii ''revision_agent''"

fun intent_value :: "AnalysisIntent \<Rightarrow> pystr" where
  "intent_value OVERVIEW = ascii ''overview''"
| "intent_value COMPARISON = ascii ''comparison''"
| "intent_value CAUSAL_ANALYSIS = ascii ''causal_analysis''"
| "intent_value TREND_PREDICTION = ascii ''trend_prediction''"
| "intent_value PROS_CONS = ascii ''pros_cons''"
| "intent_value SOLUTION_PROPOSAL = ascii ''solution_proposal''"

text \<open>The member names of \<^verbatim>\<open>AnalysisIntent\<close>, lower-cased (\<^verbatim>\<open>item.name.lower()\<close>).\<close>

fun intent_name_lower :: "AnalysisIntent \<Rightarrow> pystr" where
  "intent_name_lower OVERVIEW = ascii ''overview''"
| "intent_name_lower COMPARISON = ascii ''comparison''"
| "intent_name_lower CAUSAL_ANALYSIS = ascii ''causal_analysis''"
| "intent_name_lower TREND_PREDICTION = ascii ''trend_prediction''"
| "intent_name_lower PROS_CONS = ascii ''pros_cons''"
| "intent_name_lower SOLUTION_PROPOSAL = ascii ''solution_proposal''"

text \<open>The values of \<^verbatim>\<open>DomainCategory\<close> are Chinese phrases, given by their code points.\<close>

fun domain_value :: "DomainCategory \<Rightarrow> pystr" where
  "domain_value AI = [21069, 27839, 31185, 25216, 19982, 20154, 24037, 26234, 33021]"
| "domain_value BUSINESS_MODEL = [21830, 19994, 27169, 24335, 19982, 24066, 22330, 21160, 24577]"
| "domain_value SUSTAINABILITY =
     [21487, 25345, 32493, 21457, 23637, 19982, 29615, 22659, 27835, 29702]"
| "domain_value SOCIAL_CHANGE = [31038, 20250, 21464, 36801, 19982, 25991, 21270, 36235, 21183]"
| "domain_value LIFE_SCIENCES = [29983, 21629, 31185, 23398, 19982, 20844, 20849, 20581, 24247]"
| "domain_value GLOBAL_AFFAIRS = [20840, 29699, 20107, 21153, 19982, 26410, 26469, 27835, 29702]"
| "domain_value GENERAL = [36890, 29992]"

text \<open>\<^verbatim>\<open>datetime\<close>: a naive timestamp, as \<^verbatim>\<open>datetime.now()\<close> returns it.\<close>

record datetime =
  year :: nat
  month :: nat
  day :: nat
  hour :: nat
  minute :: nat
  second :: nat
  microsecond :: nat

text \<open>The pydantic models \<^verbatim>\<open>AnalysisQuery\<close>, \<^verbatim>\<open>ReportSection\<close> and
  \<^verbatim>\<open>ReportStructure\<close>.\<close>

record AnalysisQuery =
  domain :: DomainCategory
  analysis_intent :: AnalysisIntent

datatype SectionStatus = Outlined | Researching | Drafted | Polished

record ReportSection =
  title :: pystr
  key_questions :: "pystr list"
  content :: pystr
  sources :: "pystr list"
  status :: SectionStatus

record ReportStructure =
  template_type :: pystr
  sections :: "ReportSection list"
  executive_summary_required :: bool
  recommendations_required :: bool
  target_length :: int
  length_tolerance :: int

text \<open>
  The values a \<^verbatim>\<open>GlobalState\<close> dictionary holds. A \<^verbatim>\<open>dict\<close> is an association
  list in insertion order with distinct keys; a \<^verbatim>\<open>float\<close> is the real number it
  denotes.
\<close>

datatype pyval =
    PNone
  | PBool bool
  | PInt int
  | PFloat real
  | PStr pystr
  | PList "pyval list"
  | PDict "(pystr \<times> pyval) list"
  | PDatetime datetime
  | PStatus ValidationStatus
  | PAgent AgentName
  | PDomain DomainCategory
  | PIntent AnalysisIntent
  | PQuery AnalysisQuery
  | PStructure ReportStructure

type_synonym pydict = "(pystr \<times> pyval) list"

text \<open>\<^verbatim>\<open>d.get(k)\<close> is \<open>map_of d k\<close>; \<^verbatim>\<open>d[k] = v\<close> is \<open>AList.update k v d\<close>, which
  replaces the value in place or appends the new key, as a Python dictionary does.
  \<^verbatim>\<open>{**d, k1: v1, ...}\<close> copies \<open>d\<close> and assigns the listed keys in order.\<close>

definition dict_get :: "pydict \<Rightarrow> string \<Rightarrow> pyval option" where
  "dict_get d k = map_of d (ascii k)"

definition dict_set :: "string \<Rightarrow> pyval \<Rightarrow> pydict \<Rightarrow> pydict" where
  "dict_set k v d = AList.update (ascii k) v d"

text \<open>Python truthiness (\<^verbatim>\<open>not x\<close>, \<^verbatim>\<open>x or y\<close>).\<close>

fun truthy :: "pyval \<Rightarrow> bool" where
  "truthy PNone = False"
| "truthy (PBool b) = b"
| "truthy (PInt n) = (n \<noteq> 0)"
| "truthy (PFloat r) = (r \<noteq> 0)"
| "truthy (PStr s) = (s \<noteq> [])"
| "truthy (PList xs) = (xs \<noteq> [])"
| "truthy (PDict d) = (d \<noteq> [])"
| "truthy (PStatus s) = True"
| "truthy (PAgent a) = True"
| "truthy (PDomain a) = True"
| "truthy (PIntent a) = True"
| "truthy (PDatetime t) = True"
| "truthy (PQuery q) = True"
| "truthy (PStructure r) = True"

text \<open>\<^verbatim>\<open>state.get(k)\<close> used as a condition: a missing key gives \<^verbatim>\<open>None\<close>.\<close>

definition get_truthy :: "pydict \<Rightarrow> string \<Rightarrow> bool" where
  "get_truthy d k = (case dict_get d k of None \<Rightarrow> False | Some v \<Rightarrow> truthy v)"

text \<open>
  Comparison with a member of \<^verbatim>\<open>ValidationStatus\<close>. The enumeration mixes in
  \<^verbatim>\<open>str\<close>, so a member equals the plain string of its value as well.
\<close>

definition status_eq :: "pyval option \<Rightarrow> ValidationStatus \<Rightarrow> bool" where
  "status_eq v st = (v = Some (PStatus st) \<or> v = Some (PStr (status_value st)))"

text \<open>
  The outcome of running a piece of the program: it returns, or it raises an exception
  (kept as the text of \<^verbatim>\<open>str(e)\<close>, which is all the handlers use), or the state is not
  a \<^verbatim>\<open>GlobalState\<close>: a declared field holds a value of another type than the one
  \<^verbatim>\<open>GlobalState\<close> declares. The embedding says nothing about such states.
\<close>

datatype 'a outcome = Returns 'a | Raises pystr | IllTyped

text \<open>Typed reads of the state. \<^verbatim>\<open>state.get(k, default)\<close> for an \<^verbatim>\<open>int\<close> field, and
  for a list field.\<close>

definition get_int :: "pydict \<Rightarrow> string \<Rightarrow> int \<Rightarrow> int option" where
  "get_int d k dflt =
     (case dict_get d k of None \<Rightarrow> Some dflt | Some (PInt n) \<Rightarrow> Some n | Some _ \<Rightarrow> None)"

definition get_list :: "pydict \<Rightarrow> string \<Rightarrow> pyval list option" where
  "get_list d k =
     (case dict_get d k of None \<Rightarrow> Some [] | Some (PList xs) \<Rightarrow> Some xs | Some _ \<Rightarrow> None)"

section \<open>The quality gate (\<^verbatim>\<open>src/utils/quality_system.py\<close>)\<close>

record QualityMetrics =
  overall_score :: real
  detailed_scores :: pydict
  major_issues :: "pystr list"
  feedback :: pystr
  word_count_accuracy :: bool
  actual_word_count :: int
  evaluation_method :: pystr
  timestamp :: datetime

definition is_high_quality :: "QualityMetrics \<Rightarrow> bool" where
  "is_high_quality qm = (overall_score qm \<ge> 8.3)"

definition is_acceptable_quality :: "QualityMetrics \<Rightarrow> bool" where
  "is_acceptable_quality qm = (overall_score qm \<ge> 8.0 \<and> length (major_issues qm) = 0)"

definition should_report_pass_quality_check :: "QualityMetrics \<Rightarrow> bool" where
  "should_report_pass_quality_check qm =
     (if is_high_quality qm then True
      else if is_acceptable_quality qm then True
      else False)"

section \<open>The conditional edge (\<^verbatim>\<open>src/core/graph.py\<close>)\<close>

datatype route = Revision | Generate_report

text \<open>\<^verbatim>\<open>state['validation_status']\<close> raises \<^verbatim>\<open>KeyError\<close> when the key is missing;
  the text of a \<^verbatim>\<open>KeyError\<close> is the quoted key.\<close>

definition key_error :: "string \<Rightarrow> pystr" where
  "key_error k = ascii ([CHR 0x27] @ k @ [CHR 0x27])"

definition should_revision :: "pydict \<Rightarrow> route outcome" where
  "should_revision state =
     (case dict_get state ''validation_status'' of
        None \<Rightarrow> Raises (key_error ''validation_status'')
      | Some v \<Rightarrow>
          if status_eq (Some v) VALIDATED then Returns Generate_report
          else if status_eq (Some v) NEEDS_REVISION then
            (case get_int state ''revision_count'' 0 of
               None \<Rightarrow> IllTyped
             | Some rc \<Rightarrow> if rc < 3 then Returns Revision else Returns Generate_report)
          else Returns Generate_report)"

section \<open>Message texts\<close>

text \<open>The texts the stages write into the state, by code point. They are Chinese in the
  source; \<open>msg_max_revisions\<close> says that the maximum of 3 revisions is reached and
  revising stops, \<open>msg_missing_final_report\<close> that the final report is missing.\<close>

definition msg_max_revisions :: pystr where
  "msg_max_revisions =
     [24050, 36798, 21040, 26368, 22823, 20462, 35746, 27425, 25968, 32, 51, 65292, 20572,
      27490, 20462, 35746]"

definition msg_missing_final_report :: pystr where
  "msg_missing_final_report =
     [26080, 27861, 20462, 35746, 25253, 21578, 65306, 32570, 23569, 26368, 32456, 25253,
      21578]"

definition msg_revision_failed :: pystr where
  "msg_revision_failed =
     [20462, 35746, 22833, 36133, 58, 32]"

definition msg_keep_revised_pass_1 :: pystr where
  "msg_keep_revised_pass_1 =
     [20462, 35746, 21518, 35780, 20998, 26356, 39640, 19988, 28385, 36275, 35201, 27714, 32,
      40]"

definition msg_keep_revised_2 :: pystr where
  "msg_keep_revised_2 =
     [41, 65292, 37319, 29992, 20462, 35746, 29256, 26412]"

definition msg_keep_revised_1 :: pystr where
  "msg_keep_revised_1 =
     [20462, 35746, 21518, 35780, 20998, 26356, 39640, 32, 40]"

definition msg_keep_original_1 :: pystr where
  "msg_keep_original_1 =
     [21407, 29256, 26412, 35780, 20998, 26356, 39640, 32, 40]"

definition msg_keep_original_2 :: pystr where
  "msg_keep_original_2 =
     [41, 65292, 20445, 30041, 21407, 29256, 26412]"

definition msg_round_1 :: pystr where
  "msg_round_1 =
     [24050, 23436, 25104, 31532]"

definition msg_round_2 :: pystr where
  "msg_round_2 =
     [36718, 20462, 35746, 32, 45, 32]"

definition msg_eval_error :: pystr where
  "msg_eval_error =
     [35780, 20272, 36807, 31243, 20986, 38169, 58, 32]"

definition msg_eval_feedback :: pystr where
  "msg_eval_feedback =
     [35780, 20272, 31995, 32479, 20986, 29616, 38169, 35823, 65292, 26080, 27861, 23436,
      25104, 35780, 20272, 12290]"

definition msg_llm_failed_1 :: pystr where
  "msg_llm_failed_1 =
     [76, 76, 77, 35843, 29992, 22833, 36133, 32, 45, 32, 65, 103, 101, 110, 116, 58, 32]"

definition msg_llm_failed_2 :: pystr where
  "msg_llm_failed_2 =
     [44, 32, 38169, 35823, 58, 32]"

section \<open>The environment of a stage\<close>

text \<open>
  A stage reads the clock and calls the text generator. The generator is a script: the
  \<open>n\<close>-th call of the run returns a text or raises, whatever the prompt; a property
  proved for every script holds for every generator. A call that runs into its time limit
  raises as well and is a \<open>Failure\<close> here. The log \<open>calls\<close> records each call with
  the text its prompt is built around; the prompts themselves are not built. Progress
  events only write to the log file and are left out.
\<close>

datatype reply = Reply pystr | Failure pystr

datatype llm_call =
    Evaluation pystr pystr
  | Generation string string pystr

record world =
  now :: datetime
  llm :: "nat \<Rightarrow> reply"
  calls :: "llm_call list"

definition llm_generate :: "world \<Rightarrow> llm_call \<Rightarrow> reply \<times> world" where
  "llm_generate w c = (llm w (length (calls w)), w\<lparr>calls := calls w @ [c]\<rparr>)"

text \<open>
  \<^verbatim>\<open>call_llm_sync\<close> (\<^verbatim>\<open>src/utils/llm_utils.py\<close>): an exception of the generator is
  raised again as \<^verbatim>\<open>Exception("LLM... - Agent: <agent>, ...: <str(e)>")\<close>.
\<close>

definition call_llm_sync :: "world \<Rightarrow> string \<Rightarrow> string \<Rightarrow> pystr \<Rightarrow> pystr outcome \<times> world" where
  "call_llm_sync w agent_name operation_name about =
     (case llm_generate w (Generation agent_name operation_name about) of
        (Reply response, w') \<Rightarrow> (Returns response, w')
      | (Failure e, w') \<Rightarrow>
          (Raises (msg_llm_failed_1 @ ascii agent_name @ msg_llm_failed_2 @ e), w'))"

text \<open>
  The library functions the stages call on texts are parameters: the regular-expression
  substitution that removes a leading \<^verbatim>\<open><think>\<close> block, \<^verbatim>\<open>json.loads\<close> followed by
  \<^verbatim>\<open>json.dumps(indent=2)\<close> (\<open>None\<close> when the text is not JSON),
  \<^verbatim>\<open>_parse_evaluation_response\<close>, which is a cascade of \<^verbatim>\<open>json.loads\<close>,
  \<^verbatim>\<open>ast.literal_eval\<close> and regular expressions and returns a dictionary, and the
  float format \<^verbatim>\<open>:.1f\<close>.
\<close>

record pylib =
  re_sub_think :: "pystr \<Rightarrow> pystr"
  json_reformat :: "pystr \<Rightarrow> pystr option"
  parse_evaluation_response :: "pystr \<Rightarrow> pydict"
  format_1f :: "real \<Rightarrow> pystr"

definition rm_only_think :: "pylib \<Rightarrow> pystr \<Rightarrow> pystr" where
  "rm_only_think lib input_str =
     (let cleaned_str = re_sub_think lib input_str
      in case json_reformat lib cleaned_str of
           None \<Rightarrow> cleaned_str
         | Some formatted_json \<Rightarrow> formatted_json)"

section \<open>Timestamps as text\<close>

definition digits2 :: "nat \<Rightarrow> pystr" where
  "digits2 n = [48 + (n div 10) mod 10, 48 + n mod 10]"

definition digits4 :: "nat \<Rightarrow> pystr" where
  "digits4 n = digits2 (n div 100) @ digits2 (n mod 100)"

definition digits6 :: "nat \<Rightarrow> pystr" where
  "digits6 n = digits2 (n div 10000) @ digits4 (n mod 10000)"

text \<open>\<^verbatim>\<open>datetime.isoformat()\<close>: \<^verbatim>\<open>YYYY-MM-DDTHH:MM:SS\<close>, followed by
  \<^verbatim>\<open>.ffffff\<close> when the microseconds are not zero.\<close>

definition isoformat :: "datetime \<Rightarrow> pystr" where
  "isoformat t =
     digits4 (year t) @ [45] @ digits2 (month t) @ [45] @ digits2 (day t) @ [84] @
     digits2 (hour t) @ [58] @ digits2 (minute t) @ [58] @ digits2 (second t) @
     (if microsecond t = 0 then [] else [46] @ digits6 (microsecond t))"

text \<open>\<^verbatim>\<open>str(n)\<close> of an integer.\<close>

fun str_nat :: "nat \<Rightarrow> pystr" where
  "str_nat n = (if n < 10 then [48 + n] else str_nat (n div 10) @ [48 + n mod 10])"

definition str_int :: "int \<Rightarrow> pystr" where
  "str_int i = (if i < 0 then 45 # str_nat (nat (- i)) else str_nat (nat i))"

section \<open>Word count (\<^verbatim>\<open>src/utils/word_count.py\<close>)\<close>

definition is_chinese :: "nat \<Rightarrow> bool" where
  "is_chinese c = ((19968 \<le> c \<and> c \<le> 40959) \<or> (13312 \<le> c \<and> c \<le> 19903))"

definition count_chinese_characters :: "pystr \<Rightarrow> nat" where
  "count_chinese_characters text = length (filter is_chinese text)"

definition is_alnum :: "nat \<Rightarrow> bool" where
  "is_alnum c = ((97 \<le> c \<and> c \<le> 122) \<or> (65 \<le> c \<and> c \<le> 90) \<or> (48 \<le> c \<and> c \<le> 57))"

text \<open>The number of matches of \<^verbatim>\<open>[a-zA-Z0-9]+\<close>: the maximal runs of such characters.\<close>

fun count_runs :: "bool \<Rightarrow> pystr \<Rightarrow> nat" where
  "count_runs inside [] = 0"
| "count_runs inside (c # cs) =
     (if is_alnum c then (if inside then 0 else 1) + count_runs True cs
      else count_runs False cs)"

definition count_words :: "pystr \<Rightarrow> int" where
  "count_words text = int (count_chinese_characters text + count_runs False text)"

section \<open>Quality evaluation (\<^verbatim>\<open>UnifiedQualityEvaluator.evaluate_report_async\<close>)\<close>

text \<open>\<^verbatim>\<open>int(x)\<close> of a float truncates towards zero. The product \<^verbatim>\<open>word_limit * 0.95\<close>
  is taken exactly; the float product gives the same integer for every word limit below
  \<open>2 ^ 40\<close>.\<close>

definition py_int :: "real \<Rightarrow> int" where
  "py_int x = (if x \<ge> 0 then \<lfloor>x\<rfloor> else \<lceil>x\<rceil>)"

text \<open>
  The fields read from the parsed reply, with the defaults of \<^verbatim>\<open>.get\<close>. The reply is
  JSON written by the generator; \<open>None\<close> stands for a value of another type than
  \<^verbatim>\<open>QualityMetrics\<close> declares for the field.
\<close>

definition eval_score :: "pydict \<Rightarrow> real option" where
  "eval_score evaluation_result =
     (case map_of evaluation_result (ascii ''overall_score'') of
        None \<Rightarrow> Some 5.0
      | Some (PFloat r) \<Rightarrow> Some r
      | Some (PInt n) \<Rightarrow> Some (real_of_int n)
      | Some _ \<Rightarrow> None)"

fun is_number :: "pyval \<Rightarrow> bool" where
  "is_number (PFloat r) = True"
| "is_number (PInt n) = True"
| "is_number _ = False"

definition eval_detailed :: "pydict \<Rightarrow> pydict option" where
  "eval_detailed evaluation_result =
     (case map_of evaluation_result (ascii ''detailed_scores'') of
        None \<Rightarrow> Some []
      | Some (PDict d) \<Rightarrow> if list_all (\<lambda>(k, v). is_number v) d then Some d else None
      | Some _ \<Rightarrow> None)"

fun the_strs :: "pyval list \<Rightarrow> pystr list option" where
  "the_strs [] = Some []"
| "the_strs (PStr s # xs) = map_option ((#) s) (the_strs xs)"
| "the_strs (_ # xs) = None"

definition eval_issues :: "pydict \<Rightarrow> pystr list option" where
  "eval_issues evaluation_result =
     (case map_of evaluation_result (ascii ''major_issues'') of
        None \<Rightarrow> Some []
      | Some (PList xs) \<Rightarrow> the_strs xs
      | Some _ \<Rightarrow> None)"

definition eval_feedback :: "pydict \<Rightarrow> pystr option" where
  "eval_feedback evaluation_result =
     (case map_of evaluation_result (ascii ''feedback'') of
        None \<Rightarrow> Some []
      | Some (PStr s) \<Rightarrow> Some s
      | Some _ \<Rightarrow> None)"

text \<open>
  The body of the \<^verbatim>\<open>try\<close> is the \<open>Reply\<close> branch; the \<^verbatim>\<open>except\<close> branch returns the
  default low score with \<^verbatim>\<open>word_count_accuracy=False\<close> and \<^verbatim>\<open>len(report)\<close> as the
  count.
\<close>

definition evaluate_report_async ::
  "pylib \<Rightarrow> world \<Rightarrow> pystr \<Rightarrow> int option \<Rightarrow> pystr \<Rightarrow> QualityMetrics outcome \<times> world" where
  "evaluate_report_async lib w report word_limit method =
     (case llm_generate w (Evaluation method report) of
        (Failure e, w') \<Rightarrow>
          (Returns \<lparr>overall_score = 0.0, detailed_scores = [],
             major_issues = [msg_eval_error @ e], feedback = msg_eval_feedback,
             word_count_accuracy = False, actual_word_count = int (length report),
             evaluation_method = method, timestamp = now w'\<rparr>, w')
      | (Reply response, w') \<Rightarrow>
          (let evaluation_result = parse_evaluation_response lib response;
               actual = count_words report;
               accuracy =
                 (case word_limit of
                    None \<Rightarrow> True
                  | Some wl \<Rightarrow>
                      (let lower = py_int (real_of_int wl * 0.95);
                           upper = py_int (real_of_int wl * 1.05)
                       in lower \<le> actual \<and> actual \<le> upper))
           in case eval_score evaluation_result of
                None \<Rightarrow> (IllTyped, w')
              | Some score \<Rightarrow>
             (case eval_detailed evaluation_result of
                None \<Rightarrow> (IllTyped, w')
              | Some detailed \<Rightarrow>
             (case eval_issues evaluation_result of
                None \<Rightarrow> (IllTyped, w')
              | Some issues \<Rightarrow>
             (case eval_feedback evaluation_result of
                None \<Rightarrow> (IllTyped, w')
              | Some fb \<Rightarrow>
                  (Returns \<lparr>overall_score = score, detailed_scores = detailed,
                     major_issues = issues, feedback = fb,
                     word_count_accuracy = accuracy, actual_word_count = actual,
                     evaluation_method = method, timestamp = now w'\<rparr>, w'))))))"

text \<open>\<^verbatim>\<open>evaluate_report_quality\<close> and \<^verbatim>\<open>evaluate_report\<close> run the coroutine with
  \<^verbatim>\<open>asyncio.run\<close>.\<close>

definition evaluate_report_quality ::
  "pylib \<Rightarrow> world \<Rightarrow> pystr \<Rightarrow> int option \<Rightarrow> pystr \<Rightarrow> QualityMetrics outcome \<times> world" where
  "evaluate_report_quality lib w report word_limit method =
     evaluate_report_async lib w report word_limit method"

definition to_dict :: "QualityMetrics \<Rightarrow> pydict" where
  "to_dict qm =
     [(ascii ''overall_score'', PFloat (overall_score qm)),
      (ascii ''detailed_scores'', PDict (detailed_scores qm)),
      (ascii ''major_issues'', PList (map PStr (major_issues qm))),
      (ascii ''feedback'', PStr (feedback qm)),
      (ascii ''word_count_accuracy'', PBool (word_count_accuracy qm)),
      (ascii ''actual_word_count'', PInt (actual_word_count qm)),
      (ascii ''evaluation_method'', PStr (evaluation_method qm)),
      (ascii ''timestamp'', PStr (isoformat (timestamp qm)))]"

section \<open>Building states\<close>

definition merge_items :: "pydict \<Rightarrow> pydict \<Rightarrow> pydict" where
  "merge_items d items = fold (\<lambda>(k, v). AList.update k v) items d"

definition merge :: "pydict \<Rightarrow> (string \<times> pyval) list \<Rightarrow> pydict" where
  "merge state kvs = fold (\<lambda>(k, v). dict_set k v) kvs state"

definition get_or_none :: "pydict \<Rightarrow> string \<Rightarrow> pyval" where
  "get_or_none d k = (case dict_get d k of None \<Rightarrow> PNone | Some v \<Rightarrow> v)"

definition py_or :: "pyval \<Rightarrow> pyval \<Rightarrow> pyval" where
  "py_or a b = (if truthy a then a else b)"

text \<open>\<^verbatim>\<open>create_error_state\<close> (\<^verbatim>\<open>src/utils/agent_utils.py\<close>), without additional fields.\<close>

definition create_error_state ::
  "world \<Rightarrow> pydict \<Rightarrow> AgentName \<Rightarrow> pystr \<Rightarrow> ValidationStatus \<Rightarrow> pydict" where
  "create_error_state w state agent_name error_message validation_status =
     merge state
       [(''current_agent'', PAgent agent_name),
        (''error_message'', PStr error_message),
        (''validation_status'', PStatus validation_status),
        (''last_updated'', PDatetime (now w))]"

section \<open>The revise stage (\<^verbatim>\<open>src/agents/revision_agent.py\<close>)\<close>

text \<open>Typed reads of the fields the stage uses.\<close>

definition get_word_limit :: "pydict \<Rightarrow> int option option" where
  "get_word_limit state =
     (case dict_get state ''word_limit'' of
        None \<Rightarrow> Some None
      | Some PNone \<Rightarrow> Some None
      | Some (PInt n) \<Rightarrow> Some (Some n)
      | Some _ \<Rightarrow> None)"

definition get_report :: "pydict \<Rightarrow> pystr option" where
  "get_report state =
     (case dict_get state ''final_report'' of Some (PStr r) \<Rightarrow> Some r | _ \<Rightarrow> None)"

definition get_quality_metrics :: "pydict \<Rightarrow> pydict option" where
  "get_quality_metrics state =
     (case dict_get state ''quality_metrics'' of
        None \<Rightarrow> Some []
      | Some (PDict d) \<Rightarrow> Some d
      | Some _ \<Rightarrow> None)"

definition get_original_score :: "pydict \<Rightarrow> real option" where
  "get_original_score quality_metrics =
     (case map_of quality_metrics (ascii ''overall_score'') of
        None \<Rightarrow> Some 0
      | Some (PFloat r) \<Rightarrow> Some r
      | Some (PInt n) \<Rightarrow> Some (real_of_int n)
      | Some _ \<Rightarrow> None)"

text \<open>The error state of the stage's own handlers: \<^verbatim>\<open>last_updated\<close> is set to
  \<^verbatim>\<open>state.get("start_time") or state.get("last_updated")\<close>.\<close>

definition revision_error_state :: "pydict \<Rightarrow> pystr \<Rightarrow> ValidationStatus \<Rightarrow> pydict" where
  "revision_error_state state error_message validation_status =
     merge state
       [(''current_agent'', PAgent REVISION),
        (''error_message'', PStr error_message),
        (''validation_status'', PStatus validation_status),
        (''last_updated'',
           py_or (get_or_none state ''start_time'') (get_or_none state ''last_updated''))]"

text \<open>\<^verbatim>\<open>_execute_smart_revisions\<close>: the reply of the generator without its
  \<^verbatim>\<open><think>\<close> block, or the report itself when the call fails.\<close>

definition execute_smart_revisions :: "pylib \<Rightarrow> world \<Rightarrow> pystr \<Rightarrow> pystr \<times> world" where
  "execute_smart_revisions lib w report =
     (case call_llm_sync w ''agent.revision'' ''llm_call_smart_revision'' report of
        (Returns response, w') \<Rightarrow> (rm_only_think lib response, w')
      | (_, w') \<Rightarrow> (report, w'))"

text \<open>The choice between the revised and the original report: the report kept, the
  metrics kept (none when the original stays), the status and the message.\<close>

definition select_version ::
  "pylib \<Rightarrow> real \<Rightarrow> pystr \<Rightarrow> QualityMetrics \<Rightarrow> pystr \<Rightarrow>
     pystr \<times> QualityMetrics option \<times> ValidationStatus \<times> pystr" where
  "select_version lib original_score original_report revised_quality_metrics revised_report =
     (let revised_score = overall_score revised_quality_metrics;
          revised_passes_check = should_report_pass_quality_check revised_quality_metrics
      in if revised_passes_check \<and> revised_score \<ge> original_score then
           (revised_report, Some revised_quality_metrics,
            (if revised_passes_check then VALIDATED else NEEDS_REVISION),
            msg_keep_revised_pass_1 @ format_1f lib revised_score @ ascii '' >= '' @
              format_1f lib original_score @ msg_keep_revised_2)
         else if revised_score > original_score then
           (revised_report, Some revised_quality_metrics, NEEDS_REVISION,
            msg_keep_revised_1 @ format_1f lib revised_score @ ascii '' > '' @
              format_1f lib original_score @ msg_keep_revised_2)
         else
           (original_report, None, NEEDS_REVISION,
            msg_keep_original_1 @ format_1f lib original_score @ ascii '' >= '' @
              format_1f lib revised_score @ msg_keep_original_2))"

text \<open>
  The size adjustment after the choice. It runs when a non-zero \<^verbatim>\<open>word_limit\<close> is set
  and the revised report's count is outside the tolerance: one more generation, whose
  result is assigned to the local \<^verbatim>\<open>revised_report\<close>, and one more evaluation, whose
  result is assigned to the local \<^verbatim>\<open>revised_quality_metrics\<close>. Neither local is
  read afterwards, so only the world and a raised exception come out of it.
\<close>

definition size_adjustment ::
  "pylib \<Rightarrow> world \<Rightarrow> int option \<Rightarrow> QualityMetrics \<Rightarrow> pystr \<Rightarrow> unit outcome \<times> world" where
  "size_adjustment lib w word_limit revised_quality_metrics revised_report =
     (let target = (case word_limit of None \<Rightarrow> None | Some n \<Rightarrow> if n \<noteq> 0 then Some n else None)
      in if target \<noteq> None \<and> \<not> word_count_accuracy revised_quality_metrics then
           (case call_llm_sync w ''agent.revision'' ''llm_call_traditional_revision''
                   revised_report of
              (Returns adjusted, w') \<Rightarrow>
                (case evaluate_report_quality lib w' (rm_only_think lib adjusted) word_limit
                        (ascii ''revision_adjusted'') of
                   (Returns qm, w'') \<Rightarrow> (Returns (), w'')
                 | (Raises e, w'') \<Rightarrow> (Raises e, w'')
                 | (IllTyped, w'') \<Rightarrow> (IllTyped, w''))
            | (Raises e, w') \<Rightarrow> (Raises e, w')
            | (IllTyped, w') \<Rightarrow> (IllTyped, w'))
         else (Returns (), w))"

definition updated_quality_metrics :: "pydict \<Rightarrow> QualityMetrics \<Rightarrow> pydict" where
  "updated_quality_metrics old qm =
     merge_items (merge_items old (to_dict qm))
       [(ascii ''overall_score'', PFloat (overall_score qm)),
        (ascii ''revision_score'', PFloat (overall_score qm)),
        (ascii ''word_count_accuracy'', PBool (word_count_accuracy qm)),
        (ascii ''actual_word_count'', PInt (actual_word_count qm)),
        (ascii ''major_issues'', PList (map PStr (major_issues qm))),
        (ascii ''feedback'', PStr (feedback qm))]"

text \<open>The stage from the first evaluation on. A raised exception is caught by the
  handler of the stage, which returns the error state with status
  \<^verbatim>\<open>NEEDS_REVISION\<close>.\<close>

definition revise :: "pylib \<Rightarrow> world \<Rightarrow> pydict \<Rightarrow> int \<Rightarrow> pydict outcome \<times> world" where
  "revise lib w state current_revision_count =
     (case (get_quality_metrics state, get_report state, get_word_limit state,
            get_list state ''warnings'') of
        (Some quality_metrics, Some original_report, Some word_limit, Some warnings) \<Rightarrow>
          (case get_original_score quality_metrics of
             None \<Rightarrow> (IllTyped, w)
           | Some original_score \<Rightarrow>
          (case evaluate_report_quality lib w original_report word_limit
                  (ascii ''pre_revision'') of
             (IllTyped, w1) \<Rightarrow> (IllTyped, w1)
           | (Raises e, w1) \<Rightarrow>
               (Returns (revision_error_state state (msg_revision_failed @ e) NEEDS_REVISION), w1)
           | (Returns current_quality_metrics, w1) \<Rightarrow>
          if dict_get state ''word_limit'' = None then
            (Returns (revision_error_state state
               (msg_revision_failed @ key_error ''word_limit'') NEEDS_REVISION), w1)
          else
          (case execute_smart_revisions lib w1 original_report of (revised_report, w2) \<Rightarrow>
          (case evaluate_report_quality lib w2 revised_report word_limit (ascii ''revision'') of
             (IllTyped, w3) \<Rightarrow> (IllTyped, w3)
           | (Raises e, w3) \<Rightarrow>
               (Returns (revision_error_state state (msg_revision_failed @ e) NEEDS_REVISION), w3)
           | (Returns revised_quality_metrics, w3) \<Rightarrow>
          (case select_version lib original_score original_report revised_quality_metrics
                  revised_report of
             (final_report, final_quality_metrics, validation_status_after_revision,
              score_message) \<Rightarrow>
          (case size_adjustment lib w3 word_limit revised_quality_metrics revised_report of
             (IllTyped, w4) \<Rightarrow> (IllTyped, w4)
           | (Raises e, w4) \<Rightarrow>
               (Returns (revision_error_state state (msg_revision_failed @ e) NEEDS_REVISION), w4)
           | (Returns u, w4) \<Rightarrow>
               (let updated_state =
                      merge state
                        [(''final_report'', PStr final_report),
                         (''current_agent'', PAgent REVISION),
                         (''last_updated'', PDatetime (now w4)),
                         (''revision_count'', PInt (current_revision_count + 1)),
                         (''validation_status'', PStatus validation_status_after_revision),
                         (''warnings'',
                            PList (warnings @
                              [PStr (msg_round_1 @ str_int (current_revision_count + 1) @
                                     msg_round_2 @ score_message)]))]
                in (Returns
                     (case final_quality_metrics of
                        None \<Rightarrow> updated_state
                      | Some qm \<Rightarrow>
                          dict_set ''quality_metrics''
                            (PDict (updated_quality_metrics quality_metrics qm))
                            updated_state), w4))))))))
      | _ \<Rightarrow> (IllTyped, w))"

definition revision_node :: "pylib \<Rightarrow> world \<Rightarrow> pydict \<Rightarrow> pydict outcome \<times> world" where
  "revision_node lib w state =
     (case get_int state ''revision_count'' 0 of
        None \<Rightarrow> (IllTyped, w)
      | Some current_revision_count \<Rightarrow>
          if current_revision_count \<ge> 3 then
            (case get_list state ''warnings'' of
               None \<Rightarrow> (IllTyped, w)
             | Some warnings \<Rightarrow>
                 (Returns (merge state
                    [(''current_agent'', PAgent REVISION),
                     (''validation_status'', PStatus VALIDATED),
                     (''warnings'', PList (warnings @ [PStr msg_max_revisions]))]), w))
          else if current_revision_count > 0
                  \<and> \<not> status_eq (dict_get state ''validation_status'') NEEDS_REVISION then
            (Returns (merge state [(''current_agent'', PAgent REVISION)]), w)
          else if \<not> get_truthy state ''final_report'' then
            (Returns (revision_error_state state msg_missing_final_report FAILED), w)
          else if \<not> get_truthy state ''error_message''
                  \<and> status_eq (dict_get state ''validation_status'') VALIDATED then
            (Returns state, w)
          else revise lib w state current_revision_count)"

section \<open>The understanding stage (\<^verbatim>\<open>src/agents/problem_understanding_agent.py\<close>)\<close>

text \<open>
  The keyword tables \<^verbatim>\<open>configs/domains.py\<close> and \<^verbatim>\<open>configs/intent.py\<close> of the two
  rule-based classifiers are not among the sources, so what the classifiers return for
  the query is a parameter, together with the float format \<^verbatim>\<open>:.2f\<close> and the JSON
  parser applied to the generator's reply.
\<close>

record classification =
  rule_domain :: "DomainCategory option"
  domain_confidence :: real
  rule_intent :: "AnalysisIntent option"
  intent_confidence :: real
  format_2f :: "real \<Rightarrow> pystr"
  parse_requirements :: "pystr \<Rightarrow> pydict outcome"

definition msg_understanding_failed :: pystr where
  "msg_understanding_failed = [39064, 30446, 35299, 26512, 22833, 36133, 58, 32]"

definition msg_rule_based_1 :: pystr where
  "msg_rule_based_1 =
     [20351, 29992, 35268, 21017, 35782, 21035, 65292, 39046, 22495, 32622, 20449, 24230, 58, 32]"

definition msg_rule_based_2 :: pystr where
  "msg_rule_based_2 = [44, 32, 24847, 22270, 32622, 20449, 24230, 58, 32]"

definition DOMAIN_CONFIDENCE_THRESHOLD :: real where
  "DOMAIN_CONFIDENCE_THRESHOLD = 0.7"

definition INTENT_CONFIDENCE_THRESHOLD :: real where
  "INTENT_CONFIDENCE_THRESHOLD = 0.6"

text \<open>
  The stage skips when \<^verbatim>\<open>requirements\<close> is set. With both confidences above their
  thresholds it stores the rule-based result, otherwise what the generator's reply
  parses to (a dictionary). Both success paths set \<^verbatim>\<open>last_updated\<close> to
  \<^verbatim>\<open>state.get("start_time") or state.get("last_updated")\<close>; an exception goes to
  \<^verbatim>\<open>create_error_state\<close>. \<^verbatim>\<open>DomainCategory(None)\<close> and \<^verbatim>\<open>AnalysisIntent(None)\<close>
  raise \<^verbatim>\<open>ValueError\<close>.
\<close>

definition problem_understanding_node ::
  "classification \<Rightarrow> world \<Rightarrow> pydict \<Rightarrow> pydict outcome \<times> world" where
  "problem_understanding_node cl w state =
     (if get_truthy state ''requirements'' then
        (Returns (merge state [(''current_agent'', PAgent UNDERSTANDING)]), w)
      else
        (case dict_get state ''user_query'' of
           None \<Rightarrow>
             (Returns (create_error_state w state UNDERSTANDING
                (msg_understanding_failed @ key_error ''user_query'') FAILED), w)
         | Some (PStr query) \<Rightarrow>
             (let use_rule_domain = (domain_confidence cl \<ge> DOMAIN_CONFIDENCE_THRESHOLD);
                  use_rule_intent = (intent_confidence cl \<ge> INTENT_CONFIDENCE_THRESHOLD)
              in if use_rule_intent \<and> use_rule_domain then
                   (case rule_domain cl of
                      None \<Rightarrow>
                        (Returns (create_error_state w state UNDERSTANDING
                           (msg_understanding_failed
                              @ ascii ''None is not a valid DomainCategory'') FAILED), w)
                    | Some d \<Rightarrow>
                   (case rule_intent cl of
                      None \<Rightarrow>
                        (Returns (create_error_state w state UNDERSTANDING
                           (msg_understanding_failed
                              @ ascii ''None is not a valid AnalysisIntent'') FAILED), w)
                    | Some i \<Rightarrow>
                   (case get_list state ''warnings'' of
                      None \<Rightarrow> (IllTyped, w)
                    | Some warnings \<Rightarrow>
                        (Returns (merge state
                           [(''requirements'', PQuery \<lparr>domain = d, analysis_intent = i\<rparr>),
                            (''current_agent'', PAgent UNDERSTANDING),
                            (''last_updated'',
                               py_or (get_or_none state ''start_time'')
                                     (get_or_none state ''last_updated'')),
                            (''warnings'',
                               PList (warnings @
                                 [PStr (msg_rule_based_1 @ format_2f cl (domain_confidence cl) @
                                        msg_rule_based_2 @
                                        format_2f cl (intent_confidence cl))]))]), w))))
                 else
                   (case call_llm_sync w ''agent.problem_understanding'' ''llm_call'' query of
                      (Returns response, w') \<Rightarrow>
                        (case parse_requirements cl response of
                           Returns requirements \<Rightarrow>
                             (Returns (merge state
                                [(''requirements'', PDict requirements),
                                 (''current_agent'', PAgent UNDERSTANDING),
                                 (''last_updated'',
                                    py_or (get_or_none state ''start_time'')
                                          (get_or_none state ''last_updated''))]), w')
                         | Raises e \<Rightarrow>
                             (Returns (create_error_state w' state UNDERSTANDING
                                (msg_understanding_failed @ e) FAILED), w')
                         | IllTyped \<Rightarrow> (IllTyped, w'))
                    | (Raises e, w') \<Rightarrow>
                        (Returns (create_error_state w' state UNDERSTANDING
                           (msg_understanding_failed @ e) FAILED), w')
                    | (IllTyped, w') \<Rightarrow> (IllTyped, w')))
         | Some _ \<Rightarrow> (IllTyped, w)))"

section \<open>The initial state (\<^verbatim>\<open>app.py\<close>)\<close>

definition create_init_state :: "world \<Rightarrow> pystr \<Rightarrow> pydict" where
  "create_init_state w user_query =
     [(ascii ''user_query'', PStr user_query),
      (ascii ''requirements'', PNone),
      (ascii ''structure'', PNone),
      (ascii ''knowledge_base'', PDict []),
      (ascii ''draft_report'', PNone),
      (ascii ''final_report'', PNone),
      (ascii ''validation_status'', PStatus PENDING),
      (ascii ''revision_count'', PInt 0),
      (ascii ''current_agent'', PAgent COORDINATOR),
      (ascii ''active_section'', PNone),
      (ascii ''processed_sections'', PList []),
      (ascii ''start_time'', PDatetime (now w)),
      (ascii ''last_updated'', PDatetime (now w)),
      (ascii ''error_message'', PNone),
      (ascii ''warnings'', PList []),
      (ascii ''quality_metrics'', PDict []),
      (ascii ''processing_time'', PNone),
      (ascii ''word_limit'', PInt 1091)]"

section \<open>Checkpoints: serialisation (\<^verbatim>\<open>src/utils/checkpoint.py\<close>)\<close>

text \<open>
  JSON documents. \<^verbatim>\<open>json.dump\<close> writes a member of a \<^verbatim>\<open>(str, Enum)\<close> class as the
  string of its value, so such a member and its value are the same JSON string.
\<close>

datatype json =
    JNull
  | JBool bool
  | JInt int
  | JFloat real
  | JStr pystr
  | JList "json list"
  | JObject "(pystr \<times> json) list"

fun section_status_value :: "SectionStatus \<Rightarrow> pystr" where
  "section_status_value Outlined = ascii ''outlined''"
| "section_status_value Researching = ascii ''researching''"
| "section_status_value Drafted = ascii ''drafted''"
| "section_status_value Polished = ascii ''polished''"

text \<open>\<^verbatim>\<open>model_dump()\<close> of the three pydantic models: every field, in declaration order.\<close>

definition dump_query :: "AnalysisQuery \<Rightarrow> json" where
  "dump_query q =
     JObject [(ascii ''domain'', JStr (domain_value (domain q))),
              (ascii ''analysis_intent'', JStr (intent_value (analysis_intent q)))]"

definition dump_section :: "ReportSection \<Rightarrow> json" where
  "dump_section s =
     JObject [(ascii ''title'', JStr (title s)),
              (ascii ''key_questions'', JList (map JStr (key_questions s))),
              (ascii ''content'', JStr (content s)),
              (ascii ''sources'', JList (map JStr (sources s))),
              (ascii ''status'', JStr (section_status_value (status s)))]"

definition dump_structure :: "ReportStructure \<Rightarrow> json" where
  "dump_structure r =
     JObject [(ascii ''template_type'', JStr (template_type r)),
              (ascii ''sections'', JList (map dump_section (sections r))),
              (ascii ''executive_summary_required'', JBool (executive_summary_required r)),
              (ascii ''recommendations_required'', JBool (recommendations_required r)),
              (ascii ''target_length'', JInt (target_length r)),
              (ascii ''length_tolerance'', JInt (length_tolerance r))]"

primrec to_serializable :: "pyval \<Rightarrow> json" where
  "to_serializable PNone = JNull"
| "to_serializable (PDatetime t) = JStr (isoformat t)"
| "to_serializable (PStatus s) = JStr (status_value s)"
| "to_serializable (PAgent a) = JStr (agent_value a)"
| "to_serializable (PQuery q) = dump_query q"
| "to_serializable (PStructure r) = dump_structure r"
| "to_serializable (PList xs) = JList (map to_serializable xs)"
| "to_serializable (PDict d) = JObject (map (map_prod id to_serializable) d)"
| "to_serializable (PBool b) = JBool b"
| "to_serializable (PInt n) = JInt n"
| "to_serializable (PFloat r) = JFloat r"
| "to_serializable (PStr s) = JStr s"
| "to_serializable (PDomain d) = JStr (domain_value d)"
| "to_serializable (PIntent i) = JStr (intent_value i)"

text \<open>Keys whose value is \<^verbatim>\<open>None\<close> are left out of the snapshot.\<close>

definition serialize_state :: "pydict \<Rightarrow> (pystr \<times> json) list" where
  "serialize_state state =
     map (map_prod id to_serializable) (filter (\<lambda>(k, v). v \<noteq> PNone) state)"

section \<open>Checkpoints: deserialisation\<close>

datatype ckpt_error =
    FileNotFoundError
  | JSONDecodeError
  | AttributeError
  | ValueError pystr
  | ValidationError
  | UnicodeEncodeError

text \<open>What \<^verbatim>\<open>json.load\<close> returns, as a Python value.\<close>

primrec of_json :: "json \<Rightarrow> pyval" where
  "of_json JNull = PNone"
| "of_json (JBool b) = PBool b"
| "of_json (JInt n) = PInt n"
| "of_json (JFloat r) = PFloat r"
| "of_json (JStr s) = PStr s"
| "of_json (JList xs) = PList (map of_json xs)"
| "of_json (JObject d) = PDict (map (map_prod id of_json) d)"

text \<open>
  \<^verbatim>\<open>datetime.fromisoformat\<close> on the two forms \<^verbatim>\<open>isoformat()\<close> writes for a naive
  timestamp. (From Python 3.11 on it reads further ISO 8601 spellings, which no
  snapshot written by \<^verbatim>\<open>save_checkpoint\<close> holds; they are a \<^verbatim>\<open>ValueError\<close> here.)
\<close>

definition parse_digits :: "pystr \<Rightarrow> nat option" where
  "parse_digits s =
     (if s \<noteq> [] \<and> list_all (\<lambda>c. 48 \<le> c \<and> c \<le> 57) s
      then Some (foldl (\<lambda>acc c. 10 * acc + (c - 48)) 0 s) else None)"

definition is_leap :: "nat \<Rightarrow> bool" where
  "is_leap y = (y mod 4 = 0 \<and> (y mod 100 \<noteq> 0 \<or> y mod 400 = 0))"

definition days_in_month :: "nat \<Rightarrow> nat \<Rightarrow> nat" where
  "days_in_month y m =
     (if m = 2 then (if is_leap y then 29 else 28)
      else if m \<in> {4, 6, 9, 11} then 30 else 31)"

definition valid_datetime :: "datetime \<Rightarrow> bool" where
  "valid_datetime t =
     (1 \<le> year t \<and> year t \<le> 9999 \<and> 1 \<le> month t \<and> month t \<le> 12
      \<and> 1 \<le> day t \<and> day t \<le> days_in_month (year t) (month t)
      \<and> hour t < 24 \<and> minute t < 60 \<and> second t < 60 \<and> microsecond t < 1000000)"

definition fromisoformat :: "pystr \<Rightarrow> datetime option" where
  "fromisoformat s =
     (if (length s = 19 \<or> (length s = 26 \<and> s ! 19 = 46))
         \<and> s ! 4 = 45 \<and> s ! 7 = 45 \<and> s ! 10 = 84 \<and> s ! 13 = 58 \<and> s ! 16 = 58
      then
        (case (parse_digits (take 4 s), parse_digits (take 2 (drop 5 s)),
               parse_digits (take 2 (drop 8 s)), parse_digits (take 2 (drop 11 s)),
               parse_digits (take 2 (drop 14 s)), parse_digits (take 2 (drop 17 s)),
               (if length s = 19 then Some 0 else parse_digits (drop 20 s))) of
           (Some y, Some mo, Some d, Some h, Some mi, Some sec, Some us) \<Rightarrow>
             (let t = \<lparr>year = y, month = mo, day = d, hour = h, minute = mi, second = sec,
                       microsecond = us\<rparr>
              in if valid_datetime t then Some t else None)
         | _ \<Rightarrow> None)
      else None)"

text \<open>Looking a member up by its value, as \<^verbatim>\<open>ValidationStatus(value)\<close> does.\<close>

definition status_of_value :: "pystr \<Rightarrow> ValidationStatus option" where
  "status_of_value s =
     find (\<lambda>st. status_value st = s) [PENDING, IN_PROGRESS, VALIDATED, NEEDS_REVISION, FAILED]"

definition agent_of_value :: "pystr \<Rightarrow> AgentName option" where
  "agent_of_value s =
     find (\<lambda>a. agent_value a = s)
       [COORDINATOR, UNDERSTANDING, STRUCTURING, KNOWLEDGE, WRITING, VALIDATION, REVISION]"

definition all_intents :: "AnalysisIntent list" where
  "all_intents =
     [OVERVIEW, COMPARISON, CAUSAL_ANALYSIS, TREND_PREDICTION, PROS_CONS, SOLUTION_PROPOSAL]"

definition intent_of_value :: "pystr \<Rightarrow> AnalysisIntent option" where
  "intent_of_value s = find (\<lambda>i. intent_value i = s) all_intents"

definition domain_of_value :: "pystr \<Rightarrow> DomainCategory option" where
  "domain_of_value s =
     find (\<lambda>d. domain_value d = s)
       [AI, BUSINESS_MODEL, SUSTAINABILITY, SOCIAL_CHANGE, LIFE_SCIENCES, GLOBAL_AFFAIRS,
        GENERAL]"

definition section_status_of_value :: "pystr \<Rightarrow> SectionStatus option" where
  "section_status_of_value s =
     find (\<lambda>st. section_status_value st = s) [Outlined, Researching, Drafted, Polished]"

text \<open>
  \<^verbatim>\<open>str.strip()\<close> removes the white space of Unicode at both ends. \<^verbatim>\<open>str.lower()\<close>
  is given on the letters A to Z and on the Kelvin sign, the only other character whose
  lower case is ASCII; the remaining cased characters of Unicode stay outside ASCII and
  outside the Chinese aliases in either case, so they change no comparison made below.
\<close>

definition is_space :: "nat \<Rightarrow> bool" where
  "is_space c =
     (c \<in> {9, 10, 11, 12, 13, 28, 29, 30, 31, 32, 133, 160, 5760, 8232, 8233, 8239, 8287,
            12288} \<or> (8192 \<le> c \<and> c \<le> 8202))"

definition strip :: "pystr \<Rightarrow> pystr" where
  "strip s = rev (dropWhile is_space (rev (dropWhile is_space s)))"

definition lower :: "pystr \<Rightarrow> pystr" where
  "lower s = map (\<lambda>c. if 65 \<le> c \<and> c \<le> 90 then c + 32 else if c = 8490 then 107 else c) s"

definition alias_map :: "(pystr \<times> pystr) list" where
  "alias_map =
     [([27010, 35272], ascii ''overview''),
      ([24635, 20307, 27010, 35272], ascii ''overview''),
      (ascii ''overview'', ascii ''overview''),
      ([23545, 27604], ascii ''comparison''),
      ([27604, 36739], ascii ''comparison''),
      (ascii ''comparison'', ascii ''comparison''),
      ([22240, 26524, 20998, 26512], ascii ''causal_analysis''),
      ([22240, 26524], ascii ''causal_analysis''),
      (ascii ''causal_analysis'', ascii ''causal_analysis''),
      ([36235, 21183, 39044, 27979], ascii ''trend_prediction''),
      ([39044, 27979], ascii ''trend_prediction''),
      (ascii ''trend_prediction'', ascii ''trend_prediction''),
      ([21033, 24330, 35780, 20272], ascii ''pros_cons''),
      ([20248, 32570, 28857], ascii ''pros_cons''),
      (ascii ''pros_cons'', ascii ''pros_cons''),
      ([35299, 20915, 26041, 26696], ascii ''solution_proposal''),
      ([26041, 26696, 24314, 35758], ascii ''solution_proposal''),
      (ascii ''solution_proposal'', ascii ''solution_proposal'')]"

text \<open>\<^verbatim>\<open>coerce_analysis_intent\<close>: the alias table, then the value, then the member
  name, then the default.\<close>

definition coerce_analysis_intent :: "json \<Rightarrow> AnalysisIntent" where
  "coerce_analysis_intent v =
     (case v of
        JStr s \<Rightarrow>
          (let normalized = lower (strip s);
               target = (case map_of alias_map normalized of
                           None \<Rightarrow> normalized | Some t \<Rightarrow> t)
           in case intent_of_value target of
                Some i \<Rightarrow> i
              | None \<Rightarrow>
                  (case find (\<lambda>i. intent_name_lower i = normalized) all_intents of
                     Some i \<Rightarrow> i
                   | None \<Rightarrow> OVERVIEW))
      | _ \<Rightarrow> OVERVIEW)"

text \<open>
  The validation pydantic runs in \<^verbatim>\<open>AnalysisQuery(**d)\<close>, \<^verbatim>\<open>ReportSection(**d)\<close>
  and \<^verbatim>\<open>ReportStructure(**d)\<close>: required fields must be present, defaults fill the
  others, unknown keys are ignored, and each value must have the JSON type
  \<^verbatim>\<open>model_dump\<close> writes for the field. (pydantic also converts some other spellings,
  such as the string of a number for an integer field; they are rejected here, and
  nothing below depends on a rejection of that kind.)
\<close>

definition validate_query :: "(pystr \<times> json) list \<Rightarrow> AnalysisQuery option" where
  "validate_query d =
     (case (map_of d (ascii ''domain''), map_of d (ascii ''analysis_intent'')) of
        (Some (JStr dv), Some (JStr iv)) \<Rightarrow>
          (case (domain_of_value dv, intent_of_value iv) of
             (Some dm, Some i) \<Rightarrow> Some \<lparr>domain = dm, analysis_intent = i\<rparr>
           | _ \<Rightarrow> None)
      | _ \<Rightarrow> None)"

fun the_jstrs :: "json list \<Rightarrow> pystr list option" where
  "the_jstrs [] = Some []"
| "the_jstrs (JStr s # xs) = map_option ((#) s) (the_jstrs xs)"
| "the_jstrs (_ # xs) = None"

definition validate_section :: "json \<Rightarrow> ReportSection option" where
  "validate_section v =
     (case v of
        JObject d \<Rightarrow>
          (case (map_of d (ascii ''title''), map_of d (ascii ''key_questions''),
                 map_of d (ascii ''content'')) of
             (Some (JStr t), Some (JList qs), Some (JStr c)) \<Rightarrow>
               (case (the_jstrs qs,
                      (case map_of d (ascii ''sources'') of
                         None \<Rightarrow> Some []
                       | Some (JList ss) \<Rightarrow> the_jstrs ss
                       | Some _ \<Rightarrow> None),
                      (case map_of d (ascii ''status'') of
                         None \<Rightarrow> Some Outlined
                       | Some (JStr st) \<Rightarrow> section_status_of_value st
                       | Some _ \<Rightarrow> None)) of
                  (Some questions, Some srcs, Some st) \<Rightarrow>
                    Some \<lparr>title = t, key_questions = questions, content = c, sources = srcs,
                          status = st\<rparr>
                | _ \<Rightarrow> None)
           | _ \<Rightarrow> None)
      | _ \<Rightarrow> None)"

fun validate_sections :: "json list \<Rightarrow> ReportSection list option" where
  "validate_sections [] = Some []"
| "validate_sections (v # vs) =
     (case validate_section v of
        None \<Rightarrow> None
      | Some s \<Rightarrow> map_option ((#) s) (validate_sections vs))"

definition get_bool_default :: "(pystr \<times> json) list \<Rightarrow> string \<Rightarrow> bool \<Rightarrow> bool option" where
  "get_bool_default d k dflt =
     (case map_of d (ascii k) of None \<Rightarrow> Some dflt | Some (JBool b) \<Rightarrow> Some b | Some _ \<Rightarrow> None)"

definition validate_structure :: "(pystr \<times> json) list \<Rightarrow> ReportStructure option" where
  "validate_structure d =
     (case (map_of d (ascii ''template_type''), map_of d (ascii ''sections''),
            map_of d (ascii ''target_length'')) of
        (Some (JStr tt), Some (JList ss), Some (JInt len)) \<Rightarrow>
          (case (validate_sections ss,
                 get_bool_default d ''executive_summary_required'' True,
                 get_bool_default d ''recommendations_required'' True,
                 (case map_of d (ascii ''length_tolerance'') of
                    None \<Rightarrow> Some 0 | Some (JInt n) \<Rightarrow> Some n | Some _ \<Rightarrow> None)) of
             (Some secs, Some es, Some rr, Some lt) \<Rightarrow>
               Some \<lparr>template_type = tt, sections = secs, executive_summary_required = es,
                     recommendations_required = rr, target_length = len,
                     length_tolerance = lt\<rparr>
           | _ \<Rightarrow> None)
      | _ \<Rightarrow> None)"

text \<open>\<^verbatim>\<open>from_serializable\<close>: the conversion of one entry of the snapshot, by its key
  and the type of its value.\<close>

definition from_serializable :: "pystr \<Rightarrow> json \<Rightarrow> ckpt_error + pyval" where
  "from_serializable key v =
     (case v of
        JNull \<Rightarrow> Inr PNone
      | JStr s \<Rightarrow>
          if key \<in> {ascii ''start_time'', ascii ''last_updated''} then
            (case fromisoformat s of
               None \<Rightarrow> Inl (ValueError s)
             | Some t \<Rightarrow> Inr (PDatetime t))
          else if key = ascii ''validation_status'' then
            (case status_of_value s of
               None \<Rightarrow> Inl (ValueError s)
             | Some st \<Rightarrow> Inr (PStatus st))
          else if key = ascii ''current_agent'' then
            (case agent_of_value s of
               None \<Rightarrow> Inl (ValueError s)
             | Some a \<Rightarrow> Inr (PAgent a))
          else Inr (PStr s)
      | JObject d \<Rightarrow>
          if key = ascii ''requirements'' then
            (let patched =
                   (case map_of d (ascii ''analysis_intent'') of
                      None \<Rightarrow> d
                    | Some a \<Rightarrow>
                        AList.update (ascii ''analysis_intent'')
                          (JStr (intent_value (coerce_analysis_intent a))) d)
             in case validate_query patched of
                  None \<Rightarrow> Inl ValidationError
                | Some q \<Rightarrow> Inr (PQuery q))
          else if key = ascii ''structure'' then
            (case validate_structure d of
               None \<Rightarrow> Inl ValidationError
             | Some r \<Rightarrow> Inr (PStructure r))
          else Inr (of_json v)
      | _ \<Rightarrow> Inr (of_json v))"

fun deserialize_items :: "(pystr \<times> json) list \<Rightarrow> pydict \<Rightarrow> ckpt_error + pydict" where
  "deserialize_items [] restored = Inr restored"
| "deserialize_items ((k, v) # items) restored =
     (case from_serializable k v of
        Inl e \<Rightarrow> Inl e
      | Inr pv \<Rightarrow> deserialize_items items (AList.update k pv restored))"

text \<open>\<^verbatim>\<open>deserialize_state\<close>; \<^verbatim>\<open>data.items()\<close> needs a dictionary.\<close>

definition deserialize_state :: "json \<Rightarrow> ckpt_error + pydict" where
  "deserialize_state data =
     (case data of JObject items \<Rightarrow> deserialize_items items [] | _ \<Rightarrow> Inl AttributeError)"

section \<open>Checkpoints: the snapshot file\<close>

text \<open>
  The text of a JSON document is a list of tokens here: a bracket, a separator or a
  scalar, with white space and the spelling of numbers and strings left out.
  \<^verbatim>\<open>json.load\<close> reads a document back from the tokens of the whole file; where an
  object repeats a key the last value stays.
\<close>

datatype tok =
    TLBrace | TRBrace | TLBrack | TRBrack | TColon | TComma
  | TNull | TBool bool | TInt int | TFloat real | TStr pystr

fun encode :: "json \<Rightarrow> tok list"
  and encode_elements :: "json list \<Rightarrow> tok list"
  and encode_members :: "(pystr \<times> json) list \<Rightarrow> tok list" where
  "encode JNull = [TNull]"
| "encode (JBool b) = [TBool b]"
| "encode (JInt n) = [TInt n]"
| "encode (JFloat r) = [TFloat r]"
| "encode (JStr s) = [TStr s]"
| "encode (JList vs) = TLBrack # encode_elements vs @ [TRBrack]"
| "encode (JObject ms) = TLBrace # encode_members ms @ [TRBrace]"
| "encode_elements [] = []"
| "encode_elements [v] = encode v"
| "encode_elements (v # u # vs) = encode v @ TComma # encode_elements (u # vs)"
| "encode_members [] = []"
| "encode_members [(k, v)] = TStr k # TColon # encode v"
| "encode_members ((k, v) # m # ms) =
     TStr k # TColon # encode v @ TComma # encode_members (m # ms)"

text \<open>The reader descends recursively; its first argument bounds the depth of the
  descent, and the length of the text is always enough.\<close>

fun parse_value :: "nat \<Rightarrow> tok list \<Rightarrow> (json \<times> tok list) option"
  and parse_elements :: "nat \<Rightarrow> tok list \<Rightarrow> (json list \<times> tok list) option"
  and parse_members :: "nat \<Rightarrow> tok list \<Rightarrow> ((pystr \<times> json) list \<times> tok list) option" where
  "parse_value 0 ts = None"
| "parse_value (Suc n) ts =
     (case ts of
        [] \<Rightarrow> None
      | t # r \<Rightarrow>
          (case t of
             TNull \<Rightarrow> Some (JNull, r)
           | TBool b \<Rightarrow> Some (JBool b, r)
           | TInt i \<Rightarrow> Some (JInt i, r)
           | TFloat x \<Rightarrow> Some (JFloat x, r)
           | TStr s \<Rightarrow> Some (JStr s, r)
           | TLBrack \<Rightarrow>
               if r \<noteq> [] \<and> hd r = TRBrack then Some (JList [], tl r)
               else (case parse_elements n r of
                       None \<Rightarrow> None
                     | Some (vs, r') \<Rightarrow> Some (JList vs, r'))
           | TLBrace \<Rightarrow>
               if r \<noteq> [] \<and> hd r = TRBrace then Some (JObject [], tl r)
               else (case parse_members n r of
                       None \<Rightarrow> None
                     | Some (ms, r') \<Rightarrow>
                         Some (JObject (fold (\<lambda>(k, v). AList.update k v) ms []), r'))
           | _ \<Rightarrow> None))"
| "parse_elements 0 ts = None"
| "parse_elements (Suc n) ts =
     (case parse_value n ts of
        None \<Rightarrow> None
      | Some (v, r) \<Rightarrow>
          (case r of
             [] \<Rightarrow> None
           | t # r' \<Rightarrow>
               if t = TComma then
                 (case parse_elements n r' of
                    None \<Rightarrow> None
                  | Some (vs, r'') \<Rightarrow> Some (v # vs, r''))
               else if t = TRBrack then Some ([v], r')
               else None))"
| "parse_members 0 ts = None"
| "parse_members (Suc n) ts =
     (case ts of
        TStr k # TColon # r \<Rightarrow>
          (case parse_value n r of
             None \<Rightarrow> None
           | Some (v, r') \<Rightarrow>
               (case r' of
                  [] \<Rightarrow> None
                | t # r'' \<Rightarrow>
                    if t = TComma then
                      (case parse_members n r'' of
                         None \<Rightarrow> None
                       | Some (ms, r3) \<Rightarrow> Some ((k, v) # ms, r3))
                    else if t = TRBrace then Some ([(k, v)], r'')
                    else None))
      | _ \<Rightarrow> None)"

definition json_loads :: "tok list \<Rightarrow> json option" where
  "json_loads ts =
     (case parse_value (length ts) ts of
        Some (v, []) \<Rightarrow> Some v
      | _ \<Rightarrow> None)"

text \<open>
  \<^verbatim>\<open>json.dump(payload, f, ensure_ascii=False, indent=2)\<close> hands the text to the file
  chunk by chunk, one \<^verbatim>\<open>f.write\<close> per chunk of the encoder's iterator: in a
  dictionary the opening brace, every key, colon, comma and scalar value is a chunk of
  its own; in a list the opening bracket or the comma is joined to the scalar that
  follows it and stands alone before a nested list or dictionary; an empty list or
  dictionary is one chunk.
\<close>

fun scalar :: "json \<Rightarrow> bool" where
  "scalar (JList vs) = False"
| "scalar (JObject ms) = False"
| "scalar _ = True"

fun chunks :: "json \<Rightarrow> tok list list"
  and chunks_elements :: "tok \<Rightarrow> json list \<Rightarrow> tok list list"
  and chunks_members :: "(pystr \<times> json) list \<Rightarrow> tok list list" where
  "chunks JNull = [[TNull]]"
| "chunks (JBool b) = [[TBool b]]"
| "chunks (JInt n) = [[TInt n]]"
| "chunks (JFloat r) = [[TFloat r]]"
| "chunks (JStr s) = [[TStr s]]"
| "chunks (JList []) = [[TLBrack, TRBrack]]"
| "chunks (JList (v # vs)) = chunks_elements TLBrack (v # vs) @ [[TRBrack]]"
| "chunks (JObject []) = [[TLBrace, TRBrace]]"
| "chunks (JObject (m # ms)) = [TLBrace] # chunks_members (m # ms) @ [[TRBrace]]"
| "chunks_elements buf [] = []"
| "chunks_elements buf (v # vs) =
     (if scalar v then [buf # encode v] else [buf] # chunks v) @ chunks_elements TComma vs"
| "chunks_members [] = []"
| "chunks_members [(k, v)] = [TStr k] # [TColon] # chunks v"
| "chunks_members ((k, v) # m # ms) =
     [TStr k] # [TColon] # chunks v @ [TComma] # chunks_members (m # ms)"

text \<open>
  The file is opened with \<^verbatim>\<open>encoding="utf-8"\<close>, and with \<^verbatim>\<open>ensure_ascii=False\<close>
  the characters of a string are written as they are. The codec refuses a surrogate
  code point (U+D800 to U+DFFF): the write of a chunk that holds one raises
  \<^verbatim>\<open>UnicodeEncodeError\<close> and nothing of the chunk reaches the file.
\<close>

definition surrogate :: "nat \<Rightarrow> bool" where
  "surrogate c = (55296 \<le> c \<and> c \<le> 57343)"

definition utf8_str :: "pystr \<Rightarrow> bool" where
  "utf8_str s = list_all (\<lambda>c. \<not> surrogate c) s"

fun utf8_tok :: "tok \<Rightarrow> bool" where
  "utf8_tok (TStr s) = utf8_str s"
| "utf8_tok _ = True"

definition utf8_encodable :: "tok list \<Rightarrow> bool" where
  "utf8_encodable chunk = list_all utf8_tok chunk"

text \<open>The files: the text under each path that exists. Opening a path for writing creates
  the file or empties it, and each write appends a chunk.\<close>

type_synonym files = "pystr \<Rightarrow> tok list option"

definition open_w :: "pystr \<Rightarrow> files \<Rightarrow> files" where
  "open_w path fs = fs(path \<mapsto> [])"

definition write_chunk :: "pystr \<Rightarrow> tok list \<Rightarrow> files \<Rightarrow> files" where
  "write_chunk path chunk fs =
     fs(path \<mapsto> (case fs path of None \<Rightarrow> [] | Some old \<Rightarrow> old) @ chunk)"

text \<open>
  The loop \<^verbatim>\<open>for chunk in iterable: fp.write(chunk)\<close> of \<^verbatim>\<open>json.dump\<close>. It stops
  at the first chunk the codec refuses; the chunks written before it stay in the file,
  which the \<^verbatim>\<open>with\<close> statement closes on the way out.
\<close>

fun dump :: "pystr \<Rightarrow> tok list list \<Rightarrow> files \<Rightarrow> ckpt_error option \<times> files" where
  "dump path [] fs = (None, fs)"
| "dump path (chunk # rest) fs =
     (if utf8_encodable chunk then dump path rest (write_chunk path chunk fs)
      else (Some UnicodeEncodeError, fs))"

definition payload :: "world \<Rightarrow> pydict \<Rightarrow> json" where
  "payload w state =
     JObject [(ascii ''state'', JObject (serialize_state state)),
              (ascii ''meta'',
                 JObject [(ascii ''saved_at'', JStr (isoformat (now w))),
                          (ascii ''version'', JInt 1)])]"

text \<open>
  \<^verbatim>\<open>save_checkpoint\<close> opens the target path itself for writing and dumps the payload
  into it. An exception raised on the way is caught, logged and not raised again, so
  the call returns in either case: the result is the exception that was logged, if any,
  and the files as the call leaves them. \<open>save_checkpoint_interrupted k\<close> is the run
  of a process that is stopped after \<open>k\<close> chunks have reached the file. (The directory
  of the path exists: the callers create it before the first save.)
\<close>

definition save_checkpoint ::
  "world \<Rightarrow> files \<Rightarrow> pydict \<Rightarrow> pystr \<Rightarrow> ckpt_error option \<times> files" where
  "save_checkpoint w fs state path = dump path (chunks (payload w state)) (open_w path fs)"

definition save_checkpoint_interrupted ::
  "nat \<Rightarrow> world \<Rightarrow> files \<Rightarrow> pydict \<Rightarrow> pystr \<Rightarrow> files" where
  "save_checkpoint_interrupted k w fs state path =
     snd (dump path (take k (chunks (payload w state))) (open_w path fs))"

text \<open>\<^verbatim>\<open>load_checkpoint\<close>; \<^verbatim>\<open>payload.get("state", payload)\<close> needs a dictionary.\<close>

definition load_checkpoint :: "files \<Rightarrow> pystr \<Rightarrow> ckpt_error + pydict" where
  "load_checkpoint fs path =
     (case fs path of
        None \<Rightarrow> Inl FileNotFoundError
      | Some text \<Rightarrow>
          (case json_loads text of
             None \<Rightarrow> Inl JSONDecodeError
           | Some (JObject items) \<Rightarrow>
               deserialize_state
                 (case map_of items (ascii ''state'') of
                    None \<Rightarrow> JObject items
                  | Some data \<Rightarrow> data)
           | Some _ \<Rightarrow> Inl AttributeError))"

section \<open>States of the declared types\<close>

text \<open>
  A value that JSON holds as it is: numbers, strings, truth values, \<^verbatim>\<open>None\<close>, and
  lists and dictionaries of such values.
\<close>

fun plain :: "pyval \<Rightarrow> bool" where
  "plain PNone = True"
| "plain (PBool b) = True"
| "plain (PInt n) = True"
| "plain (PFloat r) = True"
| "plain (PStr s) = True"
| "plain (PList xs) = (\<forall>x \<in> set xs. plain x)"
| "plain (PDict d) = (distinct (map fst d) \<and> (\<forall>x \<in> set d. plain (snd x)))"
| "plain _ = False"

text \<open>
  An entry of a \<^verbatim>\<open>GlobalState\<close>: \<^verbatim>\<open>None\<close>, or a value of the type the state
  declares for the key. The two timestamps are valid dates, \<^verbatim>\<open>requirements\<close> is an
  \<^verbatim>\<open>AnalysisQuery\<close> and \<^verbatim>\<open>structure\<close> a \<^verbatim>\<open>ReportStructure\<close>.
\<close>

definition typed_entry :: "pystr \<Rightarrow> pyval \<Rightarrow> bool" where
  "typed_entry k v =
     (v = PNone \<or>
      (if k = ascii ''start_time'' \<or> k = ascii ''last_updated'' then
         (case v of PDatetime t \<Rightarrow> valid_datetime t | _ \<Rightarrow> False)
       else if k = ascii ''validation_status'' then
         (case v of PStatus s \<Rightarrow> True | _ \<Rightarrow> False)
       else if k = ascii ''current_agent'' then
         (case v of PAgent a \<Rightarrow> True | _ \<Rightarrow> False)
       else if k = ascii ''requirements'' then
         (case v of PQuery q \<Rightarrow> True | _ \<Rightarrow> False)
       else if k = ascii ''structure'' then
         (case v of PStructure r \<Rightarrow> True | _ \<Rightarrow> False)
       else plain v))"

definition typed_state :: "pydict \<Rightarrow> bool" where
  "typed_state state = (distinct (map fst state) \<and> list_all (\<lambda>(k, v). typed_entry k v) state)"

text \<open>
  The understanding stage, on the path through the generator, stores under
  \<^verbatim>\<open>requirements\<close> the dictionary the JSON parser returned instead of an
  \<^verbatim>\<open>AnalysisQuery\<close>; the later stages read both forms.
\<close>

definition stored_entry :: "pystr \<Rightarrow> pyval \<Rightarrow> bool" where
  "stored_entry k v =
     (typed_entry k v \<or>
      (k = ascii ''requirements'' \<and> (case v of PDict d \<Rightarrow> plain v | _ \<Rightarrow> False)))"

definition stored_state :: "pydict \<Rightarrow> bool" where
  "stored_state state =
     (distinct (map fst state) \<and> list_all (\<lambda>(k, v). stored_entry k v) state)"

text \<open>A state none of whose strings (keys, texts, titles) holds a surrogate code point.\<close>

definition utf8_section :: "ReportSection \<Rightarrow> bool" where
  "utf8_section s =
     (utf8_str (title s) \<and> list_all utf8_str (key_questions s) \<and> utf8_str (content s)
      \<and> list_all utf8_str (sources s))"

fun utf8_val :: "pyval \<Rightarrow> bool" where
  "utf8_val (PStr s) = utf8_str s"
| "utf8_val (PList xs) = (\<forall>x \<in> set xs. utf8_val x)"
| "utf8_val (PDict d) = (\<forall>x \<in> set d. utf8_str (fst x) \<and> utf8_val (snd x))"
| "utf8_val (PStructure r) = (utf8_str (template_type r) \<and> list_all utf8_section (sections r))"
| "utf8_val _ = True"

definition utf8_state :: "pydict \<Rightarrow> bool" where
  "utf8_state state = list_all (\<lambda>(k, v). utf8_str k \<and> utf8_val v) state"

fun utf8_json :: "json \<Rightarrow> bool" where
  "utf8_json (JStr s) = utf8_str s"
| "utf8_json (JList vs) = (\<forall>v \<in> set vs. utf8_json v)"
| "utf8_json (JObject ms) = (\<forall>m \<in> set ms. utf8_str (fst m) \<and> utf8_json (snd m))"
| "utf8_json _ = True"

definition drop_none :: "pydict \<Rightarrow> pydict" where
  "drop_none state = filter (\<lambda>(k, v). v \<noteq> PNone) state"

text \<open>A JSON document whose objects have distinct keys, as every dictionary has.\<close>

fun wf_json :: "json \<Rightarrow> bool" where
  "wf_json (JList vs) = (\<forall>v \<in> set vs. wf_json v)"
| "wf_json (JObject ms) = (distinct (map fst ms) \<and> (\<forall>m \<in> set ms. wf_json (snd m)))"
| "wf_json _ = True"

section \<open>The knowledge-retrieval stage (\<^verbatim>\<open>src/agents/knowledge_retrieval_agent.py\<close>)\<close>

definition msg_missing_structure :: pystr where
  "msg_missing_structure =
     [26080, 27861, 25552, 21462, 30693, 35782, 65306, 32570, 23569, 25253, 21578, 32467, 26500]"

definition msg_knowledge_failed :: pystr where
  "msg_knowledge_failed = [30693, 35782, 25552, 21462, 22833, 36133, 58, 32]"

text \<open>
  What the stage takes from outside, besides the clock and the generator: whether the
  external search \<^verbatim>\<open>DeepSearch().run\<close> raises (its documents only go into the
  prompts); the value of \<^verbatim>\<open>SECTION_CONCURRENCY\<close>; the order in which
  \<^verbatim>\<open>as_completed\<close> hands out the finished tasks; and which worker is the last to
  write \<^verbatim>\<open>active_section\<close>. The order is given by a sequence of choices: each choice
  picks one of the tasks not handed out yet, and when the choices run out the rest
  follows in the order of submission. Every sequence of choices gives an order of all
  tasks, and every order arises from some sequence. (\<^verbatim>\<open>as_completed\<close> first hands out
  the tasks that are finished already, in no particular order, so a pool of one worker
  does not fix the order either.)
\<close>

record fanout_env =
  search_error :: "pystr option"
  section_concurrency :: int
  completion_choices :: "nat list"
  last_writer :: nat

fun schedule :: "nat list \<Rightarrow> 'a list \<Rightarrow> 'a list" where
  "schedule cs [] = []"
| "schedule [] (t # ts) = t # ts"
| "schedule (c # cs) (t # ts) =
     (let i = c mod length (t # ts)
      in (t # ts) ! i # schedule cs (take i (t # ts) @ drop (Suc i) (t # ts)))"

text \<open>\<^verbatim>\<open>update_section_draft_report\<close>: the section is appended to the draft under
  its title in brackets, after an empty line when the draft is not empty.\<close>

definition update_section_draft_report :: "pydict \<Rightarrow> pystr \<Rightarrow> pystr \<Rightarrow> pydict option" where
  "update_section_draft_report state section_title section_content =
     (case py_or (get_or_none state ''draft_report'') (PStr []) of
        PStr draft_report \<Rightarrow>
          Some (dict_set ''draft_report''
                  (PStr (draft_report @ (if draft_report \<noteq> [] then [10, 10] else []) @
                         [91] @ section_title @ [93, 10] @ section_content))
                  state)
      | _ \<Rightarrow> None)"

text \<open>
  \<^verbatim>\<open>generate_final_content\<close> reads \<^verbatim>\<open>state['requirements']\<close>, builds the prompt of
  the section and calls the generator; an exception is logged and raised again. The
  workers run side by side; the call of the task submitted \<open>i\<close>-th is counted as the
  \<open>i\<close>-th call of the stage.
\<close>

definition section_call :: "pystr \<Rightarrow> llm_call" where
  "section_call section_title = Generation ''agent.knowledge_retrieval'' ''llm_call'' section_title"

definition generate_final_content :: "world \<Rightarrow> pydict \<Rightarrow> pystr list \<Rightarrow> nat \<Rightarrow> pystr outcome" where
  "generate_final_content w state tasks i =
     (case dict_get state ''requirements'' of
        None \<Rightarrow> Raises (key_error ''requirements'')
      | Some requirements \<Rightarrow>
          fst (call_llm_sync (w\<lparr>calls := calls w @ map section_call (take i tasks)\<rparr>)
                 ''agent.knowledge_retrieval'' ''llm_call'' (tasks ! i)))"

text \<open>The loop over \<^verbatim>\<open>as_completed(tasks)\<close>: \<^verbatim>\<open>fut.result()\<close> returns the title and
  the content or raises what the worker raised, which ends the loop.\<close>

fun collect_results ::
  "(pystr \<times> pystr outcome) list \<Rightarrow> pydict \<Rightarrow> pyval list \<Rightarrow> pyval list outcome \<times> pydict" where
  "collect_results [] state processed_sections = (Returns processed_sections, state)"
| "collect_results ((section_title, result) # futures) state processed_sections =
     (case result of
        Returns section_content \<Rightarrow>
          (case update_section_draft_report state section_title section_content of
             None \<Rightarrow> (IllTyped, state)
           | Some state' \<Rightarrow>
               collect_results futures state' (processed_sections @ [PStr section_title]))
      | Raises e \<Rightarrow> (Raises e, state)
      | IllTyped \<Rightarrow> (IllTyped, state))"

text \<open>
  The stage. Without a structure it returns an error state of its own; when every
  section is processed already it only sets \<^verbatim>\<open>current_agent\<close>. Otherwise it searches,
  opens a pool of \<^verbatim>\<open>SECTION_CONCURRENCY\<close> workers (\<^verbatim>\<open>ThreadPoolExecutor\<close> raises
  \<^verbatim>\<open>ValueError\<close> for a size below one), submits one task for each section whose title
  is not among the processed ones, and collects the results. Every worker writes
  \<^verbatim>\<open>active_section\<close> and \<^verbatim>\<open>last_updated\<close> into the shared state when it starts; the
  pool is left only when all workers are done, so these writes are in the state in
  either case. An exception raised anywhere goes to \<^verbatim>\<open>create_error_state\<close> with the
  state as it is by then; \<^verbatim>\<open>processed_sections\<close> is written on the successful path
  only.
\<close>

definition knowledge_error_state :: "world \<Rightarrow> pydict \<Rightarrow> pystr \<Rightarrow> pydict" where
  "knowledge_error_state w state e =
     create_error_state w state KNOWLEDGE (msg_knowledge_failed @ e) FAILED"

definition knowledge_retrieval_node ::
  "fanout_env \<Rightarrow> world \<Rightarrow> pydict \<Rightarrow> pydict outcome \<times> world" where
  "knowledge_retrieval_node env w state =
     (case get_list state ''processed_sections'' of
        None \<Rightarrow> (IllTyped, w)
      | Some processed_sections \<Rightarrow>
          if \<not> get_truthy state ''structure'' then
            (Returns (merge state
               [(''current_agent'', PAgent KNOWLEDGE),
                (''error_message'', PStr msg_missing_structure),
                (''validation_status'', PStatus FAILED),
                (''last_updated'',
                   py_or (get_or_none state ''start_time'')
                         (get_or_none state ''last_updated''))]), w)
          else
            (case dict_get state ''structure'' of
               Some (PStructure report_structure) \<Rightarrow>
                 if sections report_structure \<noteq> []
                    \<and> length processed_sections \<ge> length (sections report_structure)
                 then (Returns (merge state [(''current_agent'', PAgent KNOWLEDGE)]), w)
                 else
                   (case dict_get state ''user_query'' of
                      None \<Rightarrow>
                        (Returns (knowledge_error_state w state (key_error ''user_query'')), w)
                    | Some (PStr user_query) \<Rightarrow>
                        (case search_error env of
                           Some e \<Rightarrow> (Returns (knowledge_error_state w state e), w)
                         | None \<Rightarrow>
                             if section_concurrency env \<le> 0 then
                               (Returns (knowledge_error_state w state
                                  (ascii ''max_workers must be greater than 0'')), w)
                             else
                               (let tasks = filter (\<lambda>t. PStr t \<notin> set processed_sections)
                                              (map title (sections report_structure));
                                    started =
                                      (if tasks = [] then state
                                       else merge state
                                         [(''active_section'',
                                             PStr (tasks ! (last_writer env mod length tasks))),
                                          (''last_updated'', PDatetime (now w))]);
                                    w' = w\<lparr>calls := calls w @ map section_call tasks\<rparr>;
                                    futures =
                                      schedule (completion_choices env)
                                        (map (\<lambda>i. (tasks ! i,
                                                    generate_final_content w started tasks i))
                                           [0..<length tasks])
                                in case collect_results futures started processed_sections of
                                     (Returns processed_sections', state') \<Rightarrow>
                                       (Returns (merge state'
                                          [(''current_agent'', PAgent KNOWLEDGE),
                                           (''last_updated'', PDatetime (now w)),
                                           (''warnings'',
                                              (case dict_get state' ''warnings'' of
                                                 None \<Rightarrow> PList [] | Some ws \<Rightarrow> ws)),
                                           (''processed_sections'', PList processed_sections')]),
                                        w')
                                   | (Raises e, state') \<Rightarrow>
                                       (Returns (knowledge_error_state w' state' e), w')
                                   | (IllTyped, state') \<Rightarrow> (IllTyped, w')))
                    | Some _ \<Rightarrow> (IllTyped, w))
             | _ \<Rightarrow> (IllTyped, w)))"

section \<open>Example inputs\<close>

text \<open>
  An instance of the library parameters for texts that do not start with
  \<^verbatim>\<open><think>\<close>, are neither JSON nor Python literals and hold no
  \<^verbatim>\<open>"overall_score"\<close>, \<^verbatim>\<open>"major_issues"\<close> or \<^verbatim>\<open>"feedback"\<close> field: the
  substitution leaves such a text as it is, \<^verbatim>\<open>json.loads\<close> rejects it, and
  \<^verbatim>\<open>_parse_evaluation_response\<close> falls through to its regular expressions, which
  give the score 5.0, no issues and the two fixed texts. \<open>fixed1\<close> writes one decimal
  place.
\<close>

definition fixed1 :: "real \<Rightarrow> pystr" where
  "fixed1 x =
     (let t = nat \<lfloor>\<bar>x\<bar> * 10 + 1 / 2\<rfloor>
      in (if x < 0 \<and> t \<noteq> 0 then [45] else []) @ str_nat (t div 10) @ [46, 48 + t mod 10])"

definition msg_feedback_unparsed :: pystr where
  "msg_feedback_unparsed = [35780, 20272, 21453, 39304, 35299, 26512, 22833, 36133]"

definition msg_manual_check :: pystr where
  "msg_manual_check = [38656, 35201, 20154, 24037, 26816, 26597]"

definition scraped_default :: pydict where
  "scraped_default =
     [(ascii ''overall_score'', PFloat 5.0),
      (ascii ''detailed_scores'',
         PDict [(ascii ''content_completeness'', PFloat 1.0),
                (ascii ''logical_clarity'', PFloat 1.0),
                (ascii ''language_expression'', PFloat 1.0),
                (ascii ''professional_depth'', PFloat 1.0),
                (ascii ''structural_rationality'', PFloat 1.0)]),
      (ascii ''major_issues'', PList []),
      (ascii ''feedback'', PStr msg_feedback_unparsed),
      (ascii ''word_count_assessment'', PStr msg_manual_check)]"

definition lib0 :: pylib where
  "lib0 = \<lparr>re_sub_think = (\<lambda>s. s), json_reformat = (\<lambda>s. None),
            parse_evaluation_response = (\<lambda>s. scraped_default), format_1f = fixed1\<rparr>"

definition t0 :: datetime where
  "t0 = \<lparr>year = 2025, month = 3, day = 1, hour = 9, minute = 0, second = 0, microsecond = 0\<rparr>"

definition t1 :: datetime where
  "t1 = \<lparr>year = 2025, month = 3, day = 1, hour = 9, minute = 5, second = 0, microsecond = 0\<rparr>"

definition t2 :: datetime where
  "t2 = \<lparr>year = 2025, month = 3, day = 1, hour = 9, minute = 7, second = 30,
          microsecond = 250000\<rparr>"

text \<open>A world at time \<open>t2\<close> whose generator fails at every call.\<close>

definition w_down :: world where
  "w_down = \<lparr>now = t2, llm = (\<lambda>n. Failure (ascii ''connection refused'')), calls = []\<rparr>"

definition qm_8 :: QualityMetrics where
  "qm_8 = \<lparr>overall_score = 8.0, detailed_scores = [], major_issues = [], feedback = [],
            word_count_accuracy = True, actual_word_count = 0,
            evaluation_method = ascii ''validation'', timestamp = t0\<rparr>"

definition s_validated :: pydict where
  "s_validated = [(ascii ''validation_status'', PStatus VALIDATED),
                  (ascii ''revision_count'', PInt 1)]"

definition s_needs :: pydict where
  "s_needs = [(ascii ''validation_status'', PStatus NEEDS_REVISION),
              (ascii ''revision_count'', PInt 2)]"

definition s_failed :: pydict where
  "s_failed = [(ascii ''validation_status'', PStatus FAILED),
               (ascii ''revision_count'', PInt 0)]"

definition s_capped :: pydict where
  "s_capped = [(ascii ''final_report'', PStr (ascii ''report'')),
               (ascii ''validation_status'', PStatus NEEDS_REVISION),
               (ascii ''revision_count'', PInt 3),
               (ascii ''warnings'', PList [])]"

definition typed_evaluation :: "pydict \<Rightarrow> bool" where
  "typed_evaluation r =
     (eval_score r \<noteq> None \<and> eval_detailed r \<noteq> None \<and> eval_issues r \<noteq> None
      \<and> eval_feedback r \<noteq> None)"

text \<open>A generator that answers the calls of a run from a list, and fails afterwards.\<close>

definition script :: "reply list \<Rightarrow> nat \<Rightarrow> reply" where
  "script rs n = (if n < length rs then rs ! n else Failure (ascii ''no more replies''))"

definition w_up :: world where
  "w_up = \<lparr>now = t2, llm = (\<lambda>n. Reply (ascii ''a fair report'')), calls = []\<rparr>"

text \<open>
  A state in the revision loop: a short report, a target of 1000 words, a previous score
  of 3.0. The generator answers the first evaluation, the revision (a text of four
  words), the second evaluation, the size adjustment and the third evaluation.
\<close>

definition s_rev :: pydict where
  "s_rev = [(ascii ''user_query'', PStr (ascii ''topic'')),
            (ascii ''final_report'', PStr (ascii ''short draft'')),
            (ascii ''validation_status'', PStatus NEEDS_REVISION),
            (ascii ''revision_count'', PInt 0),
            (ascii ''start_time'', PDatetime t0),
            (ascii ''last_updated'', PDatetime t1),
            (ascii ''warnings'', PList []),
            (ascii ''quality_metrics'', PDict [(ascii ''overall_score'', PFloat 3.0)]),
            (ascii ''word_limit'', PInt 1000)]"

definition w_rev :: world where
  "w_rev = \<lparr>now = t2,
            llm = script [Reply (ascii ''first evaluation''),
                          Reply (ascii ''a revised draft text''),
                          Reply (ascii ''second evaluation''),
                          Reply (ascii ''an adjusted text of the requested size''),
                          Reply (ascii ''third evaluation'')],
            calls = []\<rparr>"

text \<open>The same run with a generator that fails at the size adjustment.\<close>

definition w_rev_fails :: world where
  "w_rev_fails = \<lparr>now = t2,
            llm = script [Reply (ascii ''first evaluation''),
                          Reply (ascii ''a revised draft text''),
                          Reply (ascii ''second evaluation''),
                          Failure (ascii ''connection reset'')],
            calls = []\<rparr>"

text \<open>Reading a key of the state a stage returned.\<close>

definition outcome_get :: "pydict outcome \<Rightarrow> string \<Rightarrow> pyval option" where
  "outcome_get r k = (case r of Returns s \<Rightarrow> dict_get s k | _ \<Rightarrow> None)"

definition fixed2 :: "real \<Rightarrow> pystr" where
  "fixed2 x =
     (let t = nat \<lfloor>\<bar>x\<bar> * 100 + 1 / 2\<rfloor>
      in (if x < 0 \<and> t \<noteq> 0 then [45] else []) @ str_nat (t div 100) @
         [46, 48 + (t div 10) mod 10, 48 + t mod 10])"

text \<open>A query that both rule-based classifiers recognise with high confidence; the
  parser is not called on this path.\<close>

definition cl_rule :: classification where
  "cl_rule = \<lparr>rule_domain = Some AI, domain_confidence = 0.9,
               rule_intent = Some OVERVIEW, intent_confidence = 1.0,
               format_2f = fixed2,
               parse_requirements = (\<lambda>s. Raises (ascii ''Invalid json output''))\<rparr>"

text \<open>The state of a fresh run created at \<open>t0\<close>; the first stage runs on it at \<open>t2\<close>.\<close>

definition w_start :: world where
  "w_start = \<lparr>now = t0, llm = (\<lambda>n. Reply (ascii ''a fair report'')), calls = []\<rparr>"

definition s_init :: pydict where
  "s_init = create_init_state w_start (ascii ''topic'')"

text \<open>The path of the snapshot, another path, and the files after the initial state was
  saved at \<open>t0\<close>.\<close>

definition ckpt_path :: pystr where
  "ckpt_path = ascii ''research_result/checkpoint.json''"

definition other_path :: pystr where
  "other_path = ascii ''research_result/checkpoint.json.tmp''"

definition no_files :: files where
  "no_files = (\<lambda>p. None)"

definition files_prev :: files where
  "files_prev = snd (save_checkpoint w_start no_files s_init ckpt_path)"

text \<open>The state after an understanding stage that went through the generator: the
  requirements are the dictionary the JSON parser returned.\<close>

definition s_llm :: pydict where
  "s_llm = [(ascii ''user_query'', PStr (ascii ''topic'')),
            (ascii ''requirements'',
               PDict [(ascii ''domain'', PStr (domain_value GENERAL)),
                      (ascii ''analysis_intent'', PStr (ascii ''overview''))]),
            (ascii ''validation_status'', PStatus PENDING),
            (ascii ''current_agent'', PAgent UNDERSTANDING)]"

text \<open>A state whose report ends with the first half of a character outside the basic
  plane, as a reply cut in the middle of such a character leaves it.\<close>

definition s_cut :: pydict where
  "s_cut = [(ascii ''user_query'', PStr (ascii ''topic'')),
            (ascii ''final_report'', PStr (ascii ''a report '' @ [55357])),
            (ascii ''validation_status'', PStatus VALIDATED),
            (ascii ''warnings'', PList [])]"

text \<open>States after an understanding stage that went through the generator, with the
  word for a comparison as the intent and with a domain outside the seven values.\<close>

definition s_llm_intent :: pydict where
  "s_llm_intent =
     [(ascii ''user_query'', PStr (ascii ''topic'')),
      (ascii ''requirements'',
         PDict [(ascii ''domain'', PStr (domain_value GENERAL)),
                (ascii ''analysis_intent'', PStr [23545, 27604, 20998, 26512])]),
      (ascii ''validation_status'', PStatus PENDING),
      (ascii ''current_agent'', PAgent UNDERSTANDING)]"

definition s_llm_domain :: pydict where
  "s_llm_domain =
     [(ascii ''user_query'', PStr (ascii ''topic'')),
      (ascii ''requirements'',
         PDict [(ascii ''domain'', PStr (ascii ''finance'')),
                (ascii ''analysis_intent'', PStr (ascii ''overview''))]),
      (ascii ''validation_status'', PStatus PENDING),
      (ascii ''current_agent'', PAgent UNDERSTANDING)]"

text \<open>
  A state with an outline of three sections and nothing processed yet, a pool of two
  workers, the sections completing second, first, third, and a generator that fails on
  the call for the second section.
\<close>

definition outline3 :: ReportStructure where
  "outline3 =
     \<lparr>template_type = ascii ''overview'',
      sections =
        [\<lparr>title = ascii ''Background'', key_questions = [], content = [], sources = [],
          status = Outlined\<rparr>,
         \<lparr>title = ascii ''Market'', key_questions = [], content = [], sources = [],
          status = Outlined\<rparr>,
         \<lparr>title = ascii ''Outlook'', key_questions = [], content = [], sources = [],
          status = Outlined\<rparr>],
      executive_summary_required = True, recommendations_required = True,
      target_length = 1000, length_tolerance = 100\<rparr>"

definition s_plan :: pydict where
  "s_plan = [(ascii ''user_query'', PStr (ascii ''topic'')),
             (ascii ''requirements'', PQuery \<lparr>domain = GENERAL, analysis_intent = OVERVIEW\<rparr>),
             (ascii ''structure'', PStructure outline3),
             (ascii ''validation_status'', PStatus PENDING),
             (ascii ''processed_sections'', PList []),
             (ascii ''warnings'', PList [])]"

definition env2 :: fanout_env where
  "env2 = \<lparr>search_error = None, section_concurrency = 2, completion_choices = [1, 0],
           last_writer = 2\<rparr>"

definition w_second_fails :: world where
  "w_second_fails =
     \<lparr>now = t2,
      llm = script [Reply (ascii ''text of the first section''),
                    Failure (ascii ''connection reset''),
                    Reply (ascii ''text of the third section'')],
      calls = []\<rparr>"

section \<open>Dictionaries: lookup after assignment\<close>

lemma ascii_eq_iff [simp]: "ascii a = ascii b \<longleftrightarrow> a = b"
  by (simp add: ascii_def inj_on_def)

lemma dict_get_dict_set [simp]:
  "dict_get (dict_set k v d) k' = (if k' = k then Some v else dict_get d k')"
  by (simp add: dict_get_def dict_set_def update_conv')

lemma merge_Nil [simp]: "merge d [] = d"
  by (simp add: merge_def)

lemma merge_Cons [simp]: "merge d ((k, v) # kvs) = merge (dict_set k v d) kvs"
  by (simp add: merge_def)

lemma status_eq_exclusive:
  "status_eq v VALIDATED \<Longrightarrow> \<not> status_eq v NEEDS_REVISION"
  by (auto simp: status_eq_def)

section \<open>The quality gate\<close>

text \<open>
  C5. The gate passes a \<open>QualityMetrics\<close> value exactly when its score is at least 8.3,
  or at least 8.0 with an empty list of major issues. A score of 9.0 with no major issue
  passes, a score of 8.1 with a major issue fails, and with no major issue a higher score
  never turns a pass into a fail. (The float \<^verbatim>\<open>8.3\<close> is the double just above the
  decimal 8.3 and \<^verbatim>\<open>8.0\<close> is exact, so comparing a double with them gives what
  comparing the real numbers gives.)
\<close>

theorem quality_gate_pass_rule:
  "(should_report_pass_quality_check qm \<longleftrightarrow>
      (overall_score qm \<ge> 8.3 \<or> (overall_score qm \<ge> 8.0 \<and> major_issues qm = [])))
   \<and> should_report_pass_quality_check (qm\<lparr>overall_score := 9.0, major_issues := []\<rparr>)
   \<and> \<not> should_report_pass_quality_check (qm\<lparr>overall_score := 8.1, major_issues := x # xs\<rparr>)
   \<and> (major_issues qm = [] \<longrightarrow> overall_score qm \<le> s' \<longrightarrow>
        should_report_pass_quality_check qm \<longrightarrow>
        should_report_pass_quality_check (qm\<lparr>overall_score := s'\<rparr>))"
proof -
  have rule: "should_report_pass_quality_check q \<longleftrightarrow>
      (overall_score q \<ge> 8.3 \<or> (overall_score q \<ge> 8.0 \<and> major_issues q = []))" for q
    by (simp add: should_report_pass_quality_check_def is_high_quality_def
        is_acceptable_quality_def)
  show ?thesis
    unfolding rule by auto
qed

theorem quality_gate_pass_rule_witness:
  "major_issues qm_8 = [] \<and> overall_score qm_8 \<le> 8.5
   \<and> should_report_pass_quality_check qm_8
   \<and> should_report_pass_quality_check (qm_8\<lparr>overall_score := 8.5\<rparr>)"
proof -
  have h: "major_issues qm_8 = []" "overall_score qm_8 \<le> 8.5"
    by (simp_all add: qm_8_def)
  have p: "should_report_pass_quality_check qm_8"
    using quality_gate_pass_rule [of qm_8 "[]" "[]" "8.5"] by (simp add: qm_8_def)
  from quality_gate_pass_rule [of qm_8 "[]" "[]" "8.5"] h p show ?thesis
    by blast
qed

section \<open>The conditional edge after validation\<close>

text \<open>
  C4. After the validate stage \<open>should_revision\<close> routes a validated state to report
  generation, a state that needs revision with fewer than 3 revisions to the revise
  stage, and every other state (a failed status, or 3 revisions and more) to report
  generation.
\<close>

theorem should_revision_routes:
  "(status_eq (dict_get state ''validation_status'') VALIDATED
      \<longrightarrow> should_revision state = Returns Generate_report)
   \<and> (status_eq (dict_get state ''validation_status'') NEEDS_REVISION
      \<and> get_int state ''revision_count'' 0 = Some rc \<and> rc < 3
      \<longrightarrow> should_revision state = Returns Revision)
   \<and> (dict_get state ''validation_status'' = Some v
      \<and> \<not> status_eq (Some v) VALIDATED
      \<and> (\<not> status_eq (Some v) NEEDS_REVISION
           \<or> (get_int state ''revision_count'' 0 = Some rc \<and> 3 \<le> rc))
      \<longrightarrow> should_revision state = Returns Generate_report)"
proof (intro conjI impI)
  assume "status_eq (dict_get state ''validation_status'') VALIDATED"
  then show "should_revision state = Returns Generate_report"
    by (cases "dict_get state ''validation_status''")
       (simp_all add: should_revision_def status_eq_def)
next
  assume a: "status_eq (dict_get state ''validation_status'') NEEDS_REVISION
      \<and> get_int state ''revision_count'' 0 = Some rc \<and> rc < 3"
  then obtain u where u: "dict_get state ''validation_status'' = Some u"
    by (cases "dict_get state ''validation_status''") (simp_all add: status_eq_def)
  with a have "\<not> status_eq (Some u) VALIDATED"
    using status_eq_exclusive by auto
  with a u show "should_revision state = Returns Revision"
    by (simp add: should_revision_def)
next
  assume "dict_get state ''validation_status'' = Some v
      \<and> \<not> status_eq (Some v) VALIDATED
      \<and> (\<not> status_eq (Some v) NEEDS_REVISION
           \<or> (get_int state ''revision_count'' 0 = Some rc \<and> 3 \<le> rc))"
  then show "should_revision state = Returns Generate_report"
    by (auto simp: should_revision_def)
qed

theorem should_revision_routes_witness:
  "status_eq (dict_get s_validated ''validation_status'') VALIDATED
   \<and> should_revision s_validated = Returns Generate_report
   \<and> status_eq (dict_get s_needs ''validation_status'') NEEDS_REVISION
   \<and> get_int s_needs ''revision_count'' 0 = Some 2
   \<and> should_revision s_needs = Returns Revision
   \<and> dict_get s_failed ''validation_status'' = Some (PStatus FAILED)
   \<and> should_revision s_failed = Returns Generate_report
   \<and> status_eq (dict_get s_capped ''validation_status'') NEEDS_REVISION
   \<and> get_int s_capped ''revision_count'' 0 = Some 3
   \<and> should_revision s_capped = Returns Generate_report"
proof -
  have v: "status_eq (dict_get s_validated ''validation_status'') VALIDATED"
    by (simp add: s_validated_def dict_get_def status_eq_def)
  have n: "status_eq (dict_get s_needs ''validation_status'') NEEDS_REVISION"
    "get_int s_needs ''revision_count'' 0 = Some 2"
    by (simp_all add: s_needs_def dict_get_def status_eq_def get_int_def)
  have f: "dict_get s_failed ''validation_status'' = Some (PStatus FAILED)"
    "\<not> status_eq (Some (PStatus FAILED)) VALIDATED"
    "\<not> status_eq (Some (PStatus FAILED)) NEEDS_REVISION"
    by (simp_all add: s_failed_def dict_get_def status_eq_def)
  have c: "dict_get s_capped ''validation_status'' = Some (PStatus NEEDS_REVISION)"
    "\<not> status_eq (Some (PStatus NEEDS_REVISION)) VALIDATED"
    "get_int s_capped ''revision_count'' 0 = Some 3"
    by (simp_all add: s_capped_def dict_get_def status_eq_def get_int_def)
  have c': "status_eq (dict_get s_capped ''validation_status'') NEEDS_REVISION"
    by (simp add: c(1) status_eq_def)
  from should_revision_routes [of s_validated 0 PNone] v
  have 1: "should_revision s_validated = Returns Generate_report" by blast
  from should_revision_routes [of s_needs 2 PNone] n
  have 2: "should_revision s_needs = Returns Revision" by simp
  from should_revision_routes [of s_failed 0 "PStatus FAILED"] f
  have 3: "should_revision s_failed = Returns Generate_report" by blast
  from should_revision_routes [of s_capped 3 "PStatus NEEDS_REVISION"] c
  have 4: "should_revision s_capped = Returns Generate_report" by simp
  from v n f(1) c(3) c' 1 2 3 4 show ?thesis by simp
qed

section \<open>The revise stage at the ceiling\<close>

text \<open>
  C1. When \<^verbatim>\<open>revision_count\<close> is 3 or more on entry, the revise stage calls nothing:
  it returns the state with status \<^verbatim>\<open>validated\<close>, the warning appended to
  \<^verbatim>\<open>warnings\<close> and \<^verbatim>\<open>current_agent\<close> set; every other key, the report and the
  counter among them, is as before.
\<close>

theorem revision_ceiling_noop:
  assumes "get_int state ''revision_count'' 0 = Some rc" and "3 \<le> rc"
    and "get_list state ''warnings'' = Some ws"
  shows "\<exists>state'. revision_node lib w state = (Returns state', w)
           \<and> dict_get state' ''validation_status'' = Some (PStatus VALIDATED)
           \<and> dict_get state' ''warnings'' = Some (PList (ws @ [PStr msg_max_revisions]))
           \<and> dict_get state' ''current_agent'' = Some (PAgent REVISION)
           \<and> dict_get state' ''revision_count'' = dict_get state ''revision_count''
           \<and> dict_get state' ''final_report'' = dict_get state ''final_report''
           \<and> (\<forall>k. k \<notin> {''validation_status'', ''warnings'', ''current_agent''}
                 \<longrightarrow> dict_get state' k = dict_get state k)"
  using assms by (simp add: revision_node_def)

theorem revision_ceiling_noop_witness:
  "get_int s_capped ''revision_count'' 0 = Some 3 \<and> (3::int) \<le> 3
   \<and> get_list s_capped ''warnings'' = Some []
   \<and> (\<exists>state'. revision_node lib0 w_down s_capped = (Returns state', w_down)
         \<and> dict_get state' ''validation_status'' = Some (PStatus VALIDATED)
         \<and> dict_get state' ''warnings'' = Some (PList [PStr msg_max_revisions])
         \<and> dict_get state' ''revision_count'' = Some (PInt 3)
         \<and> dict_get state' ''final_report'' = Some (PStr (ascii ''report'')))"
proof -
  have a: "get_int s_capped ''revision_count'' 0 = Some 3"
    by (simp add: s_capped_def get_int_def dict_get_def)
  have b: "get_list s_capped ''warnings'' = Some []"
    by (simp add: s_capped_def get_list_def dict_get_def)
  have c: "dict_get s_capped ''revision_count'' = Some (PInt 3)"
    "dict_get s_capped ''final_report'' = Some (PStr (ascii ''report''))"
    by (simp_all add: s_capped_def dict_get_def)
  from revision_ceiling_noop [OF a _ b, of lib0 w_down] c a b show ?thesis
    by fastforce
qed

section \<open>Evaluating concrete runs\<close>

lemma ascii_Nil_iff [simp]: "ascii s = [] \<longleftrightarrow> s = []" "[] = ascii s \<longleftrightarrow> s = []"
  by (auto simp: ascii_def)

lemma ascii_simps: "ascii [] = []" "ascii (c # cs) = of_char c # ascii cs"
  by (simp_all add: ascii_def)

lemma dict_get_Nil [simp]: "dict_get [] k = None"
  by (simp add: dict_get_def)

lemma dict_get_Cons [simp]:
  "dict_get ((ascii k', v) # d) k = (if k = k' then Some v else dict_get d k)"
  by (simp add: dict_get_def)

lemmas state_reads = get_int_def get_list_def get_truthy_def status_eq_def
  get_quality_metrics_def get_report_def get_word_limit_def get_original_score_def
  get_or_none_def py_or_def outcome_get_def

lemmas evaluation_defs = evaluate_report_quality_def evaluate_report_async_def
  llm_generate_def eval_score_def eval_detailed_def eval_issues_def eval_feedback_def
  py_int_def

lemmas revision_defs = revision_node_def revise_def execute_smart_revisions_def
  call_llm_sync_def rm_only_think_def select_version_def
  should_report_pass_quality_check_def is_high_quality_def is_acceptable_quality_def
  size_adjustment_def revision_error_state_def

lemmas count_defs = count_words_def count_chinese_characters_def is_chinese_def is_alnum_def
  ascii_simps

lemma example_counts:
  "count_words (ascii ''short draft'') = 2"
  "count_words (ascii ''a revised draft text'') = 4"
  "count_words (ascii ''an adjusted text of the requested size'') = 7"
  by (simp_all add: count_defs)

lemma typed_scraped_default: "typed_evaluation (parse_evaluation_response lib0 r)"
  by (simp add: typed_evaluation_def lib0_def scraped_default_def eval_score_def
      eval_detailed_def eval_issues_def eval_feedback_def)

section \<open>Word-count accuracy of an evaluation\<close>




section \<open>The size adjustment of the revise stage\<close>

text \<open>
  C6. The claim says that the output of the corrective generation becomes the report
  stored in \<^verbatim>\<open>final_report\<close>. On the run below the revised report (4 words against a
  target of 1000) is kept, the corrective generation is issued once and answers with
  another text, a full evaluation of that text follows, and the state returned still
  holds the revised report: the adjusted text is stored nowhere.
\<close>

theorem revision_size_adjustment_dropped:
  "outcome_get (fst (revision_node lib0 w_rev s_rev)) ''final_report''
     = Some (PStr (ascii ''a revised draft text''))
   \<and> outcome_get (fst (revision_node lib0 w_rev s_rev)) ''revision_count'' = Some (PInt 1)
   \<and> calls (snd (revision_node lib0 w_rev s_rev)) =
       [Evaluation (ascii ''pre_revision'') (ascii ''short draft''),
        Generation ''agent.revision'' ''llm_call_smart_revision'' (ascii ''short draft''),
        Evaluation (ascii ''revision'') (ascii ''a revised draft text''),
        Generation ''agent.revision'' ''llm_call_traditional_revision''
          (ascii ''a revised draft text''),
        Evaluation (ascii ''revision_adjusted'')
          (ascii ''an adjusted text of the requested size'')]"
  by (simp add: revision_defs evaluation_defs state_reads s_rev_def w_rev_def script_def
      lib0_def scraped_default_def example_counts)

section \<open>Timestamps\<close>

text \<open>
  C8. The claim says that every transition sets \<^verbatim>\<open>last_updated\<close> to the time of the
  transition. The understanding stage, run at \<open>t2\<close> on the state created at \<open>t0\<close>,
  stores the requirements and leaves \<^verbatim>\<open>last_updated\<close> at \<open>t0\<close>; the revise stage,
  whose size adjustment fails at \<open>t2\<close> on a state last updated at \<open>t1\<close>, returns its
  error state with \<^verbatim>\<open>last_updated\<close> put back to the start time \<open>t0\<close>. Neither
  changes \<^verbatim>\<open>start_time\<close>.
\<close>

theorem last_updated_reset_to_start_time:
  "now w_up = t2 \<and> t2 \<noteq> t0
   \<and> dict_get s_init ''start_time'' = Some (PDatetime t0)
   \<and> outcome_get (fst (problem_understanding_node cl_rule w_up s_init)) ''requirements''
        = Some (PQuery \<lparr>domain = AI, analysis_intent = OVERVIEW\<rparr>)
   \<and> outcome_get (fst (problem_understanding_node cl_rule w_up s_init)) ''last_updated''
        = Some (PDatetime t0)
   \<and> now w_rev_fails = t2
   \<and> dict_get s_rev ''last_updated'' = Some (PDatetime t1)
   \<and> outcome_get (fst (revision_node lib0 w_rev_fails s_rev)) ''validation_status''
        = Some (PStatus NEEDS_REVISION)
   \<and> outcome_get (fst (revision_node lib0 w_rev_fails s_rev)) ''last_updated''
        = Some (PDatetime t0)
   \<and> outcome_get (fst (revision_node lib0 w_rev_fails s_rev)) ''start_time''
        = Some (PDatetime t0)"
  by (simp add: revision_defs evaluation_defs state_reads s_rev_def w_rev_fails_def script_def
      lib0_def scraped_default_def example_counts problem_understanding_node_def cl_rule_def
      s_init_def create_init_state_def w_start_def w_up_def t0_def t2_def
      DOMAIN_CONFIDENCE_THRESHOLD_def INTENT_CONFIDENCE_THRESHOLD_def)

section \<open>Enumerations in a snapshot\<close>

lemma status_of_value_iff: "status_of_value s = Some st \<longleftrightarrow> s = status_value st"
  by (cases st) (auto simp: status_of_value_def)

lemma agent_of_value_iff: "agent_of_value s = Some a \<longleftrightarrow> s = agent_value a"
  by (cases a) (auto simp: agent_of_value_def)

lemma intent_of_value_value [simp]: "intent_of_value (intent_value i) = Some i"
  by (cases i) (simp_all add: intent_of_value_def all_intents_def)

lemma intent_of_value_iff: "intent_of_value s = Some i \<longleftrightarrow> s = intent_value i"
  by (cases i) (auto simp: intent_of_value_def all_intents_def)

lemma domain_of_value_value [simp]: "domain_of_value (domain_value d) = Some d"
  by (cases d) (simp_all add: domain_of_value_def ascii_def)

lemma section_status_of_value_value [simp]:
  "section_status_of_value (section_status_value st) = Some st"
  by (cases st) (simp_all add: section_status_of_value_def)

lemma alias_targets:
  "map_of alias_map n = Some t \<Longrightarrow> \<exists>i. t = intent_value i"
  by (auto simp: alias_map_def ascii_simps split: if_splits
      intro: exI [of _ OVERVIEW] exI [of _ COMPARISON] exI [of _ CAUSAL_ANALYSIS]
        exI [of _ TREND_PREDICTION] exI [of _ PROS_CONS] exI [of _ SOLUTION_PROPOSAL])

lemma alias_covers_values: "map_of alias_map (intent_value i) \<noteq> None"
  by (cases i) (simp_all add: alias_map_def ascii_simps)

lemma alias_covers_names: "map_of alias_map (intent_name_lower i) \<noteq> None"
  by (cases i) (simp_all add: alias_map_def ascii_simps)

lemma coerce_unknown:
  assumes "map_of alias_map (lower (strip s)) = None"
  shows "coerce_analysis_intent (JStr s) = OVERVIEW"
proof -
  let ?n = "lower (strip s)"
  have v: "intent_of_value ?n = None"
  proof (cases "intent_of_value ?n")
    case (Some i)
    then have "?n = intent_value i" by (simp add: intent_of_value_iff)
    with assms alias_covers_values [of i] show ?thesis by simp
  qed simp
  have n: "find (\<lambda>i. intent_name_lower i = ?n) all_intents = None"
  proof (cases "find (\<lambda>i. intent_name_lower i = ?n) all_intents")
    case (Some i)
    then have "intent_name_lower i = ?n" by (auto simp: find_Some_iff)
    with assms alias_covers_names [of i] show ?thesis by simp
  qed simp
  from assms v n show ?thesis
    by (simp add: coerce_analysis_intent_def)
qed

text \<open>
  C7, as stated, fails for the status fields: \<^verbatim>\<open>validation_status\<close> is read with
  \<^verbatim>\<open>ValidationStatus(value)\<close>, which raises \<^verbatim>\<open>ValueError\<close> for every spelling but
  the five canonical values. Here the snapshot holds the member name \<^verbatim>\<open>VALIDATED\<close>,
  and the hyphenated \<^verbatim>\<open>needs-revision\<close>.
\<close>

theorem deserialize_status_alias_counterexample:
  "deserialize_state (JObject [(ascii ''validation_status'', JStr (ascii ''VALIDATED''))])
     = Inl (ValueError (ascii ''VALIDATED''))
   \<and> deserialize_state
       (JObject [(ascii ''user_query'', JStr (ascii ''topic'')),
                 (ascii ''validation_status'', JStr (ascii ''needs-revision''))])
     = Inl (ValueError (ascii ''needs-revision''))"
  by (simp add: deserialize_state_def from_serializable_def status_of_value_def)

text \<open>
  C7, amended. The tolerance is that of \<^verbatim>\<open>coerce_analysis_intent\<close> alone. It never
  raises: a string that, stripped and lower-cased, is a key of the alias table (the six
  canonical values and the twelve Chinese aliases) gives the member the table names;
  every other string and every value that is not a string gives \<^verbatim>\<open>OVERVIEW\<close>; so a
  \<^verbatim>\<open>requirements\<close> entry with a canonical domain loads whatever its
  \<^verbatim>\<open>analysis_intent\<close> holds. \<^verbatim>\<open>validation_status\<close> and \<^verbatim>\<open>current_agent\<close> load
  exactly from their canonical values and raise \<^verbatim>\<open>ValueError\<close> on any other string.
\<close>

theorem deserialize_enum_tolerance:
  "(map_of alias_map (lower (strip s)) = Some t
      \<longrightarrow> intent_of_value t = Some (coerce_analysis_intent (JStr s)))
   \<and> (map_of alias_map (lower (strip s)) = None
      \<longrightarrow> coerce_analysis_intent (JStr s) = OVERVIEW)
   \<and> ((case v of JStr x \<Rightarrow> False | _ \<Rightarrow> True) \<longrightarrow> coerce_analysis_intent v = OVERVIEW)
   \<and> from_serializable (ascii ''requirements'')
        (JObject [(ascii ''domain'', JStr (domain_value d)), (ascii ''analysis_intent'', a)])
      = Inr (PQuery \<lparr>domain = d, analysis_intent = coerce_analysis_intent a\<rparr>)
   \<and> from_serializable (ascii ''validation_status'') (JStr s)
      = (case status_of_value s of None \<Rightarrow> Inl (ValueError s) | Some st \<Rightarrow> Inr (PStatus st))
   \<and> (status_of_value s = Some st \<longleftrightarrow> s = status_value st)
   \<and> from_serializable (ascii ''current_agent'') (JStr s)
      = (case agent_of_value s of None \<Rightarrow> Inl (ValueError s) | Some ag \<Rightarrow> Inr (PAgent ag))
   \<and> (agent_of_value s = Some ag \<longleftrightarrow> s = agent_value ag)"
proof (intro conjI impI)
  assume a: "map_of alias_map (lower (strip s)) = Some t"
  then obtain i where "t = intent_value i" using alias_targets by blast
  with a show "intent_of_value t = Some (coerce_analysis_intent (JStr s))"
    by (simp add: coerce_analysis_intent_def)
next
  assume "map_of alias_map (lower (strip s)) = None"
  then show "coerce_analysis_intent (JStr s) = OVERVIEW" by (rule coerce_unknown)
next
  assume "case v of JStr x \<Rightarrow> False | _ \<Rightarrow> True"
  then show "coerce_analysis_intent v = OVERVIEW"
    by (cases v) (simp_all add: coerce_analysis_intent_def)
next
  show "from_serializable (ascii ''requirements'')
        (JObject [(ascii ''domain'', JStr (domain_value d)), (ascii ''analysis_intent'', a)])
      = Inr (PQuery \<lparr>domain = d, analysis_intent = coerce_analysis_intent a\<rparr>)"
    by (simp add: from_serializable_def validate_query_def)
next
  show "from_serializable (ascii ''validation_status'') (JStr s)
      = (case status_of_value s of None \<Rightarrow> Inl (ValueError s) | Some st \<Rightarrow> Inr (PStatus st))"
    by (simp add: from_serializable_def)
next
  show "status_of_value s = Some st \<longleftrightarrow> s = status_value st"
    by (rule status_of_value_iff)
next
  show "from_serializable (ascii ''current_agent'') (JStr s)
      = (case agent_of_value s of None \<Rightarrow> Inl (ValueError s) | Some ag \<Rightarrow> Inr (PAgent ag))"
    by (simp add: from_serializable_def)
next
  show "agent_of_value s = Some ag \<longleftrightarrow> s = agent_value ag"
    by (rule agent_of_value_iff)
qed

theorem deserialize_enum_tolerance_witness:
  "map_of alias_map (lower (strip (ascii '' Pros_Cons ''))) = Some (ascii ''pros_cons'')
   \<and> coerce_analysis_intent (JStr (ascii '' Pros_Cons '')) = PROS_CONS
   \<and> map_of alias_map (lower (strip [23545, 27604])) = Some (ascii ''comparison'')
   \<and> coerce_analysis_intent (JStr [23545, 27604]) = COMPARISON
   \<and> map_of alias_map (lower (strip (ascii ''summary''))) = None
   \<and> coerce_analysis_intent (JStr (ascii ''summary'')) = OVERVIEW
   \<and> coerce_analysis_intent (JInt 3) = OVERVIEW"
proof -
  have h1: "map_of alias_map (lower (strip (ascii '' Pros_Cons ''))) = Some (ascii ''pros_cons'')"
    by (simp add: alias_map_def strip_def lower_def is_space_def ascii_simps)
  have h2: "map_of alias_map (lower (strip [23545, 27604])) = Some (ascii ''comparison'')"
    by (simp add: alias_map_def strip_def lower_def is_space_def ascii_simps)
  have h3: "map_of alias_map (lower (strip (ascii ''summary''))) = None"
    by (simp add: alias_map_def strip_def lower_def is_space_def ascii_simps)
  have v: "intent_of_value (ascii ''pros_cons'') = Some PROS_CONS"
    "intent_of_value (ascii ''comparison'') = Some COMPARISON"
    by (simp_all add: intent_of_value_def all_intents_def)
  from deserialize_enum_tolerance
         [of "ascii '' Pros_Cons ''" "ascii ''pros_cons''" "JInt 3" AI JNull PENDING COORDINATOR]
       h1 v
  have c1: "coerce_analysis_intent (JStr (ascii '' Pros_Cons '')) = PROS_CONS"
    and c4: "coerce_analysis_intent (JInt 3) = OVERVIEW"
    by simp_all
  from deserialize_enum_tolerance
         [of "[23545, 27604]" "ascii ''comparison''" JNull AI JNull PENDING COORDINATOR]
       h2 v
  have c2: "coerce_analysis_intent (JStr [23545, 27604]) = COMPARISON"
    by simp
  from deserialize_enum_tolerance
         [of "ascii ''summary''" "[]" JNull AI JNull PENDING COORDINATOR] h3
  have c3: "coerce_analysis_intent (JStr (ascii ''summary'')) = OVERVIEW"
    by blast
  from h1 h2 h3 c1 c2 c3 c4 show ?thesis by simp
qed

section \<open>Reading back what \<^verbatim>\<open>json.dump\<close> wrote\<close>

lemma update_fresh: "k \<notin> fst ` set al \<Longrightarrow> AList.update k v al = al @ [(k, v)]"
  by (induction al) auto

lemma fold_update_distinct:
  "distinct (map fst (acc @ ms)) \<Longrightarrow> fold (\<lambda>(k, v). AList.update k v) ms acc = acc @ ms"
proof (induction ms arbitrary: acc)
  case Nil
  then show ?case by simp
next
  case (Cons m ms)
  obtain k v where m: "m = (k, v)" by (cases m)
  from Cons.prems m have fresh: "k \<notin> fst ` set acc" by auto
  from Cons.prems m have "distinct (map fst ((acc @ [(k, v)]) @ ms))" by auto
  from Cons.IH [OF this] fresh m show ?case by (simp add: update_fresh)
qed

lemma encode_first:
  "encode v \<noteq> [] \<and> hd (encode v) \<noteq> TRBrack \<and> hd (encode v) \<noteq> TRBrace"
  by (cases v) simp_all

lemma encode_elements_first:
  "vs \<noteq> [] \<Longrightarrow> encode_elements vs \<noteq> [] \<and> hd (encode_elements vs) \<noteq> TRBrack"
  using encode_first by (cases vs rule: encode_elements.cases) (auto simp: hd_append)

lemma encode_members_first:
  "ms \<noteq> [] \<Longrightarrow> encode_members ms \<noteq> [] \<and> hd (encode_members ms) \<noteq> TRBrace"
  by (cases ms rule: encode_members.cases) auto

lemma parse_encode:
  "wf_json v \<Longrightarrow> length (encode v) \<le> n \<Longrightarrow> parse_value n (encode v @ rest) = Some (v, rest)"
  "(\<forall>v \<in> set vs. wf_json v) \<Longrightarrow> vs \<noteq> [] \<Longrightarrow> length (encode_elements vs) < n
     \<Longrightarrow> parse_elements n (encode_elements vs @ TRBrack # rest) = Some (vs, rest)"
  "(\<forall>m \<in> set ms. wf_json (snd m)) \<Longrightarrow> ms \<noteq> [] \<Longrightarrow> length (encode_members ms) < n
     \<Longrightarrow> parse_members n (encode_members ms @ TRBrace # rest) = Some (ms, rest)"
proof (induction v and vs and ms arbitrary: n rest and n rest and n rest
    rule: encode_encode_elements_encode_members.induct)
  case (6 vs)
  then obtain n' where n: "n = Suc n'" by (cases n) auto
  show ?case
  proof (cases "vs = []")
    case True
    with n show ?thesis by simp
  next
    case False
    from 6 n have len: "length (encode_elements vs) < n'" by simp
    from 6 have wf: "\<forall>v \<in> set vs. wf_json v" by simp
    from encode_elements_first [OF False] have
      "\<not> (encode_elements vs @ TRBrack # rest \<noteq> [] \<and> hd (encode_elements vs @ TRBrack # rest) = TRBrack)"
      by (simp add: hd_append)
    with "6.IH" [OF wf False len, of rest] n show ?thesis by simp
  qed
next
  case (7 ms)
  then obtain n' where n: "n = Suc n'" by (cases n) auto
  show ?case
  proof (cases "ms = []")
    case True
    with n show ?thesis by simp
  next
    case False
    from 7 n have len: "length (encode_members ms) < n'" by simp
    from 7 have wf: "\<forall>m \<in> set ms. wf_json (snd m)" and d: "distinct (map fst ms)" by simp_all
    from encode_members_first [OF False] have
      "\<not> (encode_members ms @ TRBrace # rest \<noteq> [] \<and> hd (encode_members ms @ TRBrace # rest) = TRBrace)"
      by (simp add: hd_append)
    with "7.IH" [OF wf False len, of rest] n d fold_update_distinct [of "[]" ms]
    show ?thesis by simp
  qed
next
  case (9 v)
  then obtain n' where n: "n = Suc n'" by (cases n) auto
  from 9 n have "parse_value n' (encode v @ TRBrack # rest) = Some (v, TRBrack # rest)"
    by (intro "9.IH") simp_all
  with n show ?case by simp
next
  case (10 v u vs)
  then obtain n' where n: "n = Suc n'" by (cases n) auto
  from 10 n have a: "parse_value n' (encode v @ TComma # encode_elements (u # vs) @ TRBrack # rest)
      = Some (v, TComma # encode_elements (u # vs) @ TRBrack # rest)"
    by (intro "10.IH"(1)) simp_all
  from encode_first [of v] have "length (encode v) \<ge> 1" by (cases "encode v") simp_all
  with 10 n have b: "parse_elements n' (encode_elements (u # vs) @ TRBrack # rest)
      = Some (u # vs, rest)"
    by (intro "10.IH"(2)) simp_all
  from a b n show ?case by simp
next
  case (12 k v)
  then obtain n' where n: "n = Suc n'" by (cases n) auto
  from 12 n have "parse_value n' (encode v @ TRBrace # rest) = Some (v, TRBrace # rest)"
    by (intro "12.IH") simp_all
  with n show ?case by simp
next
  case (13 k v m ms)
  then obtain n' where n: "n = Suc n'" by (cases n) auto
  from 13 n have a: "parse_value n' (encode v @ TComma # encode_members (m # ms) @ TRBrace # rest)
      = Some (v, TComma # encode_members (m # ms) @ TRBrace # rest)"
    by (intro "13.IH"(1)) simp_all
  from 13 n have b: "parse_members n' (encode_members (m # ms) @ TRBrace # rest)
      = Some (m # ms, rest)"
    by (intro "13.IH"(2)) simp_all
  from a b n show ?case by simp
qed (auto elim: less_imp_Suc_add [elim_format] simp: Suc_le_eq dest!: Suc_leD)

lemma json_loads_encode: "wf_json v \<Longrightarrow> json_loads (encode v) = Some v"
  using parse_encode(1) [of v "length (encode v)" "[]"] by (simp add: json_loads_def)

section \<open>Reading back a timestamp\<close>

lemma digit_range: "48 \<le> 48 + (x::nat) mod 10 \<and> 48 + x mod 10 \<le> 57"
proof -
  have "x mod 10 < 10" by simp
  then show ?thesis by linarith
qed

lemma digits2_all: "list_all (\<lambda>c. 48 \<le> c \<and> c \<le> 57) (digits2 n)"
  using digit_range by (simp add: digits2_def)

lemma digits4_all: "list_all (\<lambda>c. 48 \<le> c \<and> c \<le> 57) (digits4 n)"
  using digits2_all by (simp add: digits4_def)

lemma digits6_all: "list_all (\<lambda>c. 48 \<le> c \<and> c \<le> 57) (digits6 n)"
  using digits2_all digits4_all by (simp add: digits6_def)

lemma digits2_val:
  "foldl (\<lambda>acc c. 10 * acc + (c - 48)) a (digits2 n) = 100 * a + n mod 100"
  using mod_mult2_eq [of n 10 10] by (simp add: digits2_def)

lemma digits4_val:
  "foldl (\<lambda>acc c. 10 * acc + (c - 48)) a (digits4 n) = 10000 * a + n mod 10000"
  using mod_mult2_eq [of n 100 100] by (simp add: digits4_def digits2_val)

lemma digits6_val:
  "foldl (\<lambda>acc c. 10 * acc + (c - 48)) a (digits6 n) = 1000000 * a + n mod 1000000"
  using mod_mult2_eq [of n 10000 100] by (simp add: digits6_def digits2_val digits4_val)

lemma length_digits [simp]:
  "length (digits2 n) = 2" "length (digits4 n) = 4" "length (digits6 n) = 6"
  by (simp_all add: digits2_def digits4_def digits6_def)

lemma digits_nonempty [simp]: "digits2 n \<noteq> []" "digits4 n \<noteq> []" "digits6 n \<noteq> []"
  by (simp_all add: digits2_def digits4_def digits6_def)

lemma parse_digits2: "n < 100 \<Longrightarrow> parse_digits (digits2 n) = Some n"
  using digits2_all [of n] length_digits(1) [of n]
  by (auto simp: parse_digits_def digits2_val)

lemma parse_digits4: "n < 10000 \<Longrightarrow> parse_digits (digits4 n) = Some n"
  using digits4_all [of n] length_digits(2) [of n]
  by (auto simp: parse_digits_def digits4_val)

lemma parse_digits6: "n < 1000000 \<Longrightarrow> parse_digits (digits6 n) = Some n"
  using digits6_all [of n] length_digits(3) [of n]
  by (auto simp: parse_digits_def digits6_val)

lemma days_in_month_le: "days_in_month y m \<le> 31"
  by (simp add: days_in_month_def)

lemma fromisoformat_isoformat:
  assumes "valid_datetime t"
  shows "fromisoformat (isoformat t) = Some t"
proof -
  obtain y mo d h mi s us where t: "t = \<lparr>year = y, month = mo, day = d, hour = h,
      minute = mi, second = s, microsecond = us\<rparr>"
    by (cases t) auto
  from assms t days_in_month_le [of y mo]
  have b: "y < 10000" "mo < 100" "d < 100" "h < 100" "mi < 100" "s < 100" "us < 1000000"
    by (auto simp: valid_datetime_def)
  show ?thesis
  proof (cases "us = 0")
    case True
    with b assms show ?thesis
      by (simp add: fromisoformat_def isoformat_def t nth_append nth_Cons' take_Cons' drop_Cons'
          parse_digits2 parse_digits4)
  next
    case False
    with b assms show ?thesis
      by (simp add: fromisoformat_def isoformat_def t nth_append nth_Cons' take_Cons' drop_Cons'
          parse_digits2 parse_digits4 parse_digits6)
  qed
qed

section \<open>Reading back a serialised value\<close>

lemma of_json_to_serializable: "plain v \<Longrightarrow> of_json (to_serializable v) = v"
proof (induction v)
  case (PList xs)
  then show ?case by (simp add: map_idI)
next
  case (PDict d)
  then have "\<And>x. x \<in> set d \<Longrightarrow> map_prod id of_json (map_prod id to_serializable x) = x"
    by (auto simp: prod.map_comp intro!: prod.expand elim: snds.cases)
  then show ?case by (simp add: map_idI)
qed simp_all

lemma wf_json_to_serializable_plain: "plain v \<Longrightarrow> wf_json (to_serializable v)"
proof (induction v)
  case (PDict d)
  then show ?case
    by (auto simp: comp_def)
qed simp_all

lemma the_jstrs_map [simp]: "the_jstrs (map JStr xs) = Some xs"
  by (induction xs) simp_all

lemma validate_section_dump [simp]: "validate_section (dump_section s) = Some s"
  by (cases s) (simp add: validate_section_def dump_section_def)

lemma validate_sections_dump [simp]: "validate_sections (map dump_section ss) = Some ss"
  by (induction ss) simp_all

lemma validate_structure_dump:
  "dump_structure r = JObject d \<Longrightarrow> validate_structure d = Some r"
  by (cases r) (auto simp: validate_structure_def dump_structure_def get_bool_default_def)

lemma lower_strip_value: "lower (strip (intent_value i)) = intent_value i"
  by (cases i) (simp_all add: lower_def strip_def is_space_def ascii_simps)

lemma coerce_value [simp]: "coerce_analysis_intent (JStr (intent_value i)) = i"
  by (cases i)
     (simp_all add: coerce_analysis_intent_def lower_strip_value alias_map_def ascii_simps
        intent_of_value_def all_intents_def del: intent_value.simps,
      simp_all add: ascii_simps)

lemma wf_json_dump_section: "wf_json (dump_section s)"
  by (simp add: dump_section_def)

lemma wf_json_dump_structure: "wf_json (dump_structure r)"
  by (simp add: dump_structure_def wf_json_dump_section)

lemma wf_json_dump_query: "wf_json (dump_query q)"
  by (simp add: dump_query_def)

lemma from_to_serializable:
  assumes "typed_entry k v" and "v \<noteq> PNone"
  shows "from_serializable k (to_serializable v) = Inr v \<and> wf_json (to_serializable v)"
proof -
  consider (time) "k = ascii ''start_time'' \<or> k = ascii ''last_updated''"
    | (status) "k = ascii ''validation_status''"
    | (agent) "k = ascii ''current_agent''"
    | (req) "k = ascii ''requirements''"
    | (struct) "k = ascii ''structure''"
    | (other) "k \<notin> {ascii ''start_time'', ascii ''last_updated'', ascii ''validation_status'',
         ascii ''current_agent'', ascii ''requirements'', ascii ''structure''}"
    by blast
  then show ?thesis
  proof cases
    case time
    with assms obtain t where "v = PDatetime t" "valid_datetime t"
      by (auto simp: typed_entry_def split: pyval.splits)
    with time show ?thesis
      by (auto simp: from_serializable_def fromisoformat_isoformat)
  next
    case status
    with assms obtain st where "v = PStatus st"
      by (auto simp: typed_entry_def split: pyval.splits)
    with status show ?thesis
      using status_of_value_iff [of "status_value st" st]
      by (simp add: from_serializable_def del: status_value.simps)
  next
    case agent
    with assms obtain a where "v = PAgent a"
      by (auto simp: typed_entry_def split: pyval.splits)
    with agent show ?thesis
      using agent_of_value_iff [of "agent_value a" a]
      by (simp add: from_serializable_def del: agent_value.simps)
  next
    case req
    with assms obtain q where v: "v = PQuery q"
      by (auto simp: typed_entry_def split: pyval.splits)
    obtain dm i where q: "q = \<lparr>domain = dm, analysis_intent = i\<rparr>" by (cases q) auto
    from req v q show ?thesis
      by (simp add: from_serializable_def dump_query_def validate_query_def
          del: intent_value.simps domain_value.simps)
  next
    case struct
    with assms obtain r where v: "v = PStructure r"
      by (auto simp: typed_entry_def split: pyval.splits)
    obtain d where d: "dump_structure r = JObject d" by (simp add: dump_structure_def)
    from validate_structure_dump [OF d] struct v d wf_json_dump_structure [of r]
    show ?thesis
      by (simp add: from_serializable_def)
  next
    case other
    with assms have p: "plain v" by (auto simp: typed_entry_def split: if_splits)
    from other p assms(2) of_json_to_serializable [OF p] wf_json_to_serializable_plain [OF p]
    show ?thesis
      by (cases v) (auto simp: from_serializable_def)
  qed
qed

section \<open>Saving and loading a state\<close>

lemma serialize_state_Cons:
  "serialize_state ((k, v) # s) =
     (if v = PNone then serialize_state s else (k, to_serializable v) # serialize_state s)"
  by (simp add: serialize_state_def)

lemma drop_none_Cons:
  "drop_none ((k, v) # s) = (if v = PNone then drop_none s else (k, v) # drop_none s)"
  by (simp add: drop_none_def)

lemma deserialize_serialize_items:
  "distinct (map fst (acc @ s)) \<Longrightarrow> list_all (\<lambda>(k, v). typed_entry k v) s
     \<Longrightarrow> deserialize_items (serialize_state s) acc = Inr (acc @ drop_none s)"
proof (induction s arbitrary: acc)
  case Nil
  then show ?case by (simp add: serialize_state_def drop_none_def)
next
  case (Cons e s)
  obtain k v where e: "e = (k, v)" by (cases e)
  show ?case
  proof (cases "v = PNone")
    case True
    from Cons.prems e have "distinct (map fst (acc @ s))" by auto
    from Cons.IH [OF this] Cons.prems e True show ?thesis
      by (simp add: serialize_state_Cons drop_none_Cons)
  next
    case False
    from Cons.prems e have ty: "typed_entry k v" by simp
    from Cons.prems e have fresh: "k \<notin> fst ` set acc" by auto
    from Cons.prems e have "distinct (map fst ((acc @ [(k, v)]) @ s))" by auto
    from Cons.IH [OF this] Cons.prems e False from_to_serializable [OF ty False] fresh
    show ?thesis
      by (simp add: serialize_state_Cons drop_none_Cons update_fresh)
  qed
qed

text \<open>The text a completed dump leaves is the encoding of the document.\<close>

lemma concat_chunks:
  "concat (chunks j) = encode j"
  "concat (chunks_elements buf vs) = (if vs = [] then [] else buf # encode_elements vs)"
  "concat (chunks_members ms) = encode_members ms"
proof (induction j and buf vs and ms rule: chunks_chunks_elements_chunks_members.induct)
  case (11 buf v vs)
  then show ?case by (cases v; cases vs) auto
qed auto

lemma list_all_concat: "list_all P (concat xss) = list_all (list_all P) xss"
  by (induction xss) auto

lemma write_chunk_same: "write_chunk p c (fs(p \<mapsto> old)) = fs(p \<mapsto> old @ c)"
  by (simp add: write_chunk_def)

lemma dump_complete:
  "list_all utf8_encodable cs \<Longrightarrow> dump p cs (fs(p \<mapsto> old)) = (None, fs(p \<mapsto> old @ concat cs))"
proof (induction cs arbitrary: old)
  case Nil
  then show ?case by simp
next
  case (Cons c cs)
  from Cons.prems have c: "utf8_encodable c" and cs: "list_all utf8_encodable cs" by simp_all
  have "dump p (c # cs) (fs(p \<mapsto> old)) = dump p cs (fs(p \<mapsto> old @ c))"
    using c by (simp only: dump.simps write_chunk_same if_True)
  also have "\<dots> = (None, fs(p \<mapsto> (old @ c) @ concat cs))"
    using cs by (rule Cons.IH)
  finally show ?case by (simp only: append_assoc concat.simps)
qed

lemma save_checkpoint_file:
  assumes "list_all utf8_tok (encode (payload w s))"
  shows "save_checkpoint w fs s p = (None, fs(p \<mapsto> encode (payload w s)))"
proof -
  from assms have "list_all utf8_encodable (chunks (payload w s))"
    by (simp add: list_all_concat [symmetric] concat_chunks utf8_encodable_def [abs_def])
  from dump_complete [OF this, of p fs "[]"] show ?thesis
    by (simp add: save_checkpoint_def open_w_def concat_chunks)
qed

text \<open>No text the serialisation makes up itself (timestamps, member values, field
  names) holds a surrogate, so a state without surrogates is dumped to the end.\<close>

lemma utf8_str_Nil [simp]: "utf8_str []"
  by (simp add: utf8_str_def)

lemma utf8_str_Cons [simp]: "utf8_str (c # s) \<longleftrightarrow> \<not> surrogate c \<and> utf8_str s"
  by (simp add: utf8_str_def)

lemma utf8_str_append [simp]: "utf8_str (a @ b) \<longleftrightarrow> utf8_str a \<and> utf8_str b"
  by (simp add: utf8_str_def)

lemma utf8_str_ascii [simp]: "utf8_str (ascii s)"
proof (induction s)
  case Nil
  then show ?case by (simp add: ascii_def)
next
  case (Cons c s)
  have "of_char c mod 256 < (256::nat)" by simp
  then have "of_char c < (256::nat)" by (simp only: of_char_mod_256)
  then have "\<not> surrogate (of_char c)" unfolding surrogate_def by linarith
  with Cons show ?case by (simp add: ascii_def)
qed

lemma utf8_str_digits [simp]: "utf8_str (digits2 n)" "utf8_str (digits4 n)" "utf8_str (digits6 n)"
proof -
  have d: "\<not> surrogate (48 + x mod 10)" for x :: nat
  proof -
    have "x mod 10 < 10" by simp
    then show ?thesis by (simp add: surrogate_def)
  qed
  show 2: "utf8_str (digits2 n)" for n
    by (simp add: digits2_def d)
  show 4: "utf8_str (digits4 n)" for n
    by (simp add: digits4_def 2)
  show "utf8_str (digits6 n)"
    by (simp add: digits6_def 2 4)
qed

lemma utf8_str_isoformat [simp]: "utf8_str (isoformat t)"
  by (simp add: isoformat_def surrogate_def)

lemma utf8_str_status_value [simp]: "utf8_str (status_value st)"
  by (cases st) simp_all

lemma utf8_str_agent_value [simp]: "utf8_str (agent_value a)"
  by (cases a) simp_all

lemma utf8_str_intent_value [simp]: "utf8_str (intent_value i)"
  by (cases i) simp_all

lemma utf8_str_domain_value [simp]: "utf8_str (domain_value d)"
  by (cases d) (simp_all add: surrogate_def)

lemma utf8_str_section_status_value [simp]: "utf8_str (section_status_value ss)"
  by (cases ss) simp_all

lemma utf8_json_encode:
  "utf8_json j \<Longrightarrow> list_all utf8_tok (encode j)"
  "(\<forall>v \<in> set vs. utf8_json v) \<Longrightarrow> list_all utf8_tok (encode_elements vs)"
  "(\<forall>m \<in> set ms. utf8_str (fst m) \<and> utf8_json (snd m)) \<Longrightarrow> list_all utf8_tok (encode_members ms)"
  by (induction j and vs and ms rule: encode_encode_elements_encode_members.induct) auto

lemma utf8_json_dump_section: "utf8_section s \<Longrightarrow> utf8_json (dump_section s)"
  by (auto simp: utf8_section_def dump_section_def list_all_iff)

lemma utf8_json_to_serializable: "utf8_val v \<Longrightarrow> utf8_json (to_serializable v)"
proof (induction v)
  case (PStructure r)
  then show ?case
    by (auto simp: dump_structure_def list_all_iff utf8_json_dump_section)
next
  case (PQuery q)
  then show ?case by (simp add: dump_query_def del: domain_value.simps intent_value.simps)
qed (auto simp del: domain_value.simps intent_value.simps status_value.simps agent_value.simps)

lemma utf8_payload:
  assumes "utf8_state s"
  shows "list_all utf8_tok (encode (payload w s))"
proof -
  from assms have "utf8_json (JObject (serialize_state s))"
    by (auto simp: utf8_state_def serialize_state_def list_all_iff utf8_json_to_serializable)
  then have "utf8_json (payload w s)"
    by (simp add: payload_def)
  then show ?thesis by (rule utf8_json_encode)
qed

text \<open>Loading what a completed save wrote.\<close>

lemma typed_stored: "typed_state s \<Longrightarrow> stored_state s"
  by (auto simp: typed_state_def stored_state_def stored_entry_def list_all_iff)

lemma wf_json_stored_entry:
  assumes "stored_entry k v" and "v \<noteq> PNone"
  shows "wf_json (to_serializable v)"
proof (cases "typed_entry k v")
  case True
  from from_to_serializable [OF this assms(2)] show ?thesis by simp
next
  case False
  with assms(1) have "plain v"
    by (auto simp: stored_entry_def split: pyval.splits)
  then show ?thesis by (rule wf_json_to_serializable_plain)
qed

lemma wf_json_serialize_stored:
  assumes "stored_state s"
  shows "wf_json (JObject (serialize_state s))"
proof -
  from assms have d: "distinct (map fst s)" and t: "list_all (\<lambda>(k, v). stored_entry k v) s"
    by (simp_all add: stored_state_def)
  have k: "map fst (serialize_state s) = map fst (filter (\<lambda>(k, v). v \<noteq> PNone) s)"
    by (simp add: serialize_state_def comp_def)
  from d have "distinct (map fst (filter (\<lambda>(k, v). v \<noteq> PNone) s))"
    by (rule distinct_map_filter)
  with k have dk: "distinct (map fst (serialize_state s))" by simp
  have "wf_json (snd m)" if "m \<in> set (serialize_state s)" for m
  proof -
    from that obtain k v where kv: "(k, v) \<in> set s" "v \<noteq> PNone" "m = (k, to_serializable v)"
      by (auto simp: serialize_state_def)
    with t have "stored_entry k v" by (auto simp: list_all_iff)
    from wf_json_stored_entry [OF this kv(2)] kv(3) show ?thesis by simp
  qed
  with dk show ?thesis by simp
qed

lemma load_save_checkpoint:
  assumes "stored_state s" and "utf8_state s"
  shows "save_checkpoint w fs s p = (None, fs(p \<mapsto> encode (payload w s)))"
    and "load_checkpoint (snd (save_checkpoint w fs s p)) p
           = deserialize_items (serialize_state s) []"
proof -
  from utf8_payload [OF assms(2)]
  show f: "save_checkpoint w fs s p = (None, fs(p \<mapsto> encode (payload w s)))"
    by (rule save_checkpoint_file)
  from wf_json_serialize_stored [OF assms(1)] have "wf_json (payload w s)"
    by (simp add: payload_def)
  then have l: "json_loads (encode (payload w s)) = Some (payload w s)"
    by (rule json_loads_encode)
  show "load_checkpoint (snd (save_checkpoint w fs s p)) p
           = deserialize_items (serialize_state s) []"
    by (simp add: load_checkpoint_def f l) (simp add: payload_def deserialize_state_def)
qed

lemma load_save_typed:
  assumes "typed_state s" and "utf8_state s"
  shows "load_checkpoint (snd (save_checkpoint w fs s p)) p = Inr (drop_none s)"
proof -
  from assms(1) have "distinct (map fst ([] @ s))" "list_all (\<lambda>(k, v). typed_entry k v) s"
    by (simp_all add: typed_state_def)
  then have "deserialize_items (serialize_state s) [] = Inr ([] @ drop_none s)"
    by (rule deserialize_serialize_items)
  with load_save_checkpoint(2) [OF typed_stored [OF assms(1)] assms(2), of w fs p]
  show ?thesis by simp
qed

text \<open>With a dictionary under \<^verbatim>\<open>requirements\<close>, what comes back under the other keys.\<close>

lemma deserialize_stored_items:
  "distinct (map fst (acc @ s)) \<Longrightarrow> list_all (\<lambda>(k, v). stored_entry k v) s
     \<Longrightarrow> deserialize_items (serialize_state s) acc = Inr s'
     \<Longrightarrow> map fst s' = map fst (acc @ drop_none s)
         \<and> (\<forall>k. k \<noteq> ascii ''requirements'' \<longrightarrow> map_of s' k = map_of (acc @ drop_none s) k)"
proof (induction s arbitrary: acc)
  case Nil
  then show ?case by (simp add: serialize_state_def drop_none_def)
next
  case (Cons e s)
  obtain k v where e: "e = (k, v)" by (cases e)
  show ?case
  proof (cases "v = PNone")
    case True
    from Cons.prems e have "distinct (map fst (acc @ s))" by auto
    from Cons.IH [OF this] Cons.prems e True show ?thesis
      by (simp add: serialize_state_Cons drop_none_Cons)
  next
    case False
    from Cons.prems e have st: "stored_entry k v" by simp
    from Cons.prems e have fresh: "k \<notin> fst ` set acc" by auto
    from Cons.prems(3) e False obtain pv where
      pv: "from_serializable k (to_serializable v) = Inr pv"
      and r: "deserialize_items (serialize_state s) (AList.update k pv acc) = Inr s'"
      by (auto simp: serialize_state_Cons split: sum.splits)
    from fresh r have r': "deserialize_items (serialize_state s) (acc @ [(k, pv)]) = Inr s'"
      by (simp add: update_fresh)
    from Cons.prems e have d: "distinct (map fst ((acc @ [(k, pv)]) @ s))" by auto
    from Cons.prems e have t: "list_all (\<lambda>(k, v). stored_entry k v) s" by simp
    note ih = Cons.IH [OF d t r']
    have same: "pv = v" if "k \<noteq> ascii ''requirements''"
    proof -
      from st that have "typed_entry k v" by (simp add: stored_entry_def)
      from from_to_serializable [OF this False] pv show ?thesis by simp
    qed
    from ih have keys: "map fst s' = map fst (acc @ drop_none (e # s))"
      using e False by (simp add: drop_none_Cons)
    have "map_of s' k' = map_of (acc @ drop_none (e # s)) k'"
      if k': "k' \<noteq> ascii ''requirements''" for k'
    proof (cases "k = ascii ''requirements''")
      case True
      with k' have "k' \<noteq> k" by simp
      with ih k' e False show ?thesis
        by (simp add: drop_none_Cons map_add_def split: option.splits)
    next
      case False
      from same [OF this] ih k' e \<open>v \<noteq> PNone\<close> show ?thesis
        by (simp add: drop_none_Cons)
    qed
    with keys show ?thesis by blast
  qed
qed

section \<open>The round trip of a checkpoint\<close>

lemma valid_example_times: "valid_datetime t0" "valid_datetime t1" "valid_datetime t2"
  by (simp_all add: valid_datetime_def t0_def t1_def t2_def days_in_month_def)

lemma typed_s_init: "typed_state s_init"
  by (simp add: typed_state_def s_init_def create_init_state_def typed_entry_def
      w_start_def valid_example_times)

lemma typed_s_rev: "typed_state s_rev"
  by (simp add: typed_state_def s_rev_def typed_entry_def valid_example_times)

lemma utf8_s_init: "utf8_state s_init"
  by (simp add: utf8_state_def s_init_def create_init_state_def)

lemma utf8_s_rev: "utf8_state s_rev"
  by (simp add: utf8_state_def s_rev_def)

lemma stored_s_llm: "stored_state s_llm" "utf8_state s_llm" "\<not> typed_state s_llm"
  by (simp_all add: stored_state_def utf8_state_def typed_state_def s_llm_def stored_entry_def
      typed_entry_def surrogate_def)

lemma drop_none_s_init:
  "drop_none s_init =
     [(ascii ''user_query'', PStr (ascii ''topic'')),
      (ascii ''knowledge_base'', PDict []),
      (ascii ''validation_status'', PStatus PENDING),
      (ascii ''revision_count'', PInt 0),
      (ascii ''current_agent'', PAgent COORDINATOR),
      (ascii ''processed_sections'', PList []),
      (ascii ''start_time'', PDatetime t0),
      (ascii ''last_updated'', PDatetime t0),
      (ascii ''warnings'', PList []),
      (ascii ''quality_metrics'', PDict []),
      (ascii ''word_limit'', PInt 1091)]"
  by (simp add: drop_none_def s_init_def create_init_state_def w_start_def)

lemma map_of_drop_none:
  "distinct (map fst s) \<Longrightarrow>
     map_of (drop_none s) k = (case map_of s k of Some v \<Rightarrow> if v = PNone then None else Some v
                               | None \<Rightarrow> None)"
proof (induction s)
  case Nil
  then show ?case by (simp add: drop_none_def)
next
  case (Cons e s)
  obtain k' v where e: "e = (k', v)" by (cases e)
  from Cons e have "k' \<notin> fst ` set s" by auto
  then have "map_of s k' = None" by (simp add: map_of_eq_None_iff)
  with Cons e show ?case
    by (auto simp: drop_none_Cons split: option.splits)
qed

text \<open>
  C2, as stated, fails. The initial state holds \<^verbatim>\<open>None\<close> under seven keys
  (\<^verbatim>\<open>requirements\<close> among them); the snapshot leaves these keys out, and the state
  loaded from it has no such keys at all: it is another dictionary than the one saved.
\<close>

theorem checkpoint_round_trip_counterexample:
  "load_checkpoint (snd (save_checkpoint w_up no_files s_init ckpt_path)) ckpt_path
     = Inr (drop_none s_init)
   \<and> dict_get s_init ''requirements'' = Some PNone
   \<and> dict_get (drop_none s_init) ''requirements'' = None
   \<and> drop_none s_init \<noteq> s_init"
proof -
  have a: "dict_get s_init ''requirements'' = Some PNone"
    by (simp add: s_init_def create_init_state_def)
  have b: "dict_get (drop_none s_init) ''requirements'' = None"
    by (simp add: drop_none_s_init)
  from a b have "drop_none s_init \<noteq> s_init" by auto
  with a b load_save_typed [OF typed_s_init utf8_s_init, of w_up no_files ckpt_path]
  show ?thesis by simp
qed

text \<open>
  C2, amended. Take a state with distinct keys in which no string holds a surrogate code
  point and every entry is \<^verbatim>\<open>None\<close> or of the type declared for its key, where
  \<^verbatim>\<open>requirements\<close> may also be the plain dictionary the understanding stage stores.
  Then \<^verbatim>\<open>save_checkpoint\<close> logs no error. When \<^verbatim>\<open>requirements\<close> is \<^verbatim>\<open>None\<close> or an
  \<^verbatim>\<open>AnalysisQuery\<close>, loading after saving returns the state without the keys that held
  \<^verbatim>\<open>None\<close>, in the same order; every lookup \<^verbatim>\<open>state.get(k)\<close> gives on it what it
  gave on the saved state; and a state with no \<^verbatim>\<open>None\<close> entry is loaded back
  unchanged. When \<^verbatim>\<open>requirements\<close> is a dictionary, a load that returns gives a state
  with the same keys in the same order and the same value under every key other than
  \<^verbatim>\<open>requirements\<close>; whether it returns and what it holds under \<^verbatim>\<open>requirements\<close>
  is not part of the statement.
\<close>

theorem checkpoint_round_trip:
  assumes "stored_state s" and "utf8_state s"
  shows "fst (save_checkpoint w fs s p) = None
    \<and> (typed_state s \<longrightarrow>
         load_checkpoint (snd (save_checkpoint w fs s p)) p = Inr (drop_none s))
    \<and> (\<forall>k. (case map_of (drop_none s) k of None \<Rightarrow> PNone | Some v \<Rightarrow> v)
           = (case map_of s k of None \<Rightarrow> PNone | Some v \<Rightarrow> v))
    \<and> (typed_state s \<and> PNone \<notin> snd ` set s \<longrightarrow>
         load_checkpoint (snd (save_checkpoint w fs s p)) p = Inr s)
    \<and> (\<forall>s'. load_checkpoint (snd (save_checkpoint w fs s p)) p = Inr s' \<longrightarrow>
         map fst s' = map fst (drop_none s)
         \<and> (\<forall>k. k \<noteq> ascii ''requirements'' \<longrightarrow> map_of s' k = map_of (drop_none s) k))"
proof -
  from assms(1) have d: "distinct (map fst s)"
    and t: "list_all (\<lambda>(k, v). stored_entry k v) s"
    by (simp_all add: stored_state_def)
  have a: "fst (save_checkpoint w fs s p) = None"
    by (simp add: load_save_checkpoint(1) [OF assms])
  have l: "load_checkpoint (snd (save_checkpoint w fs s p)) p = Inr (drop_none s)"
    if "typed_state s"
    using that assms(2) by (rule load_save_typed)
  have g: "(case map_of (drop_none s) k of None \<Rightarrow> PNone | Some v \<Rightarrow> v)
           = (case map_of s k of None \<Rightarrow> PNone | Some v \<Rightarrow> v)" for k
    by (simp add: map_of_drop_none [OF d] split: option.splits)
  have n: "drop_none s = s" if "PNone \<notin> snd ` set s"
    using that by (force simp: drop_none_def filter_id_conv)
  have r: "map fst s' = map fst (drop_none s)
      \<and> (\<forall>k. k \<noteq> ascii ''requirements'' \<longrightarrow> map_of s' k = map_of (drop_none s) k)"
    if "load_checkpoint (snd (save_checkpoint w fs s p)) p = Inr s'" for s'
  proof -
    from that load_save_checkpoint(2) [OF assms, of w fs p]
    have "deserialize_items (serialize_state s) [] = Inr s'" by simp
    with d t deserialize_stored_items [of "[]" s s'] show ?thesis by simp
  qed
  from a l g n r show ?thesis by simp
qed

lemma load_s_llm:
  "load_checkpoint (snd (save_checkpoint w_up no_files s_llm ckpt_path)) ckpt_path
     = Inr [(ascii ''user_query'', PStr (ascii ''topic'')),
            (ascii ''requirements'', PQuery \<lparr>domain = GENERAL, analysis_intent = OVERVIEW\<rparr>),
            (ascii ''validation_status'', PStatus PENDING),
            (ascii ''current_agent'', PAgent UNDERSTANDING)]"
proof -
  have c: "coerce_analysis_intent (JStr (ascii ''overview'')) = OVERVIEW"
    using coerce_value [of OVERVIEW] by simp
  have v: "intent_of_value (ascii ''overview'') = Some OVERVIEW"
    using intent_of_value_value [of OVERVIEW] by simp
  have st: "status_of_value (ascii ''pending'') = Some PENDING"
    by (simp add: status_of_value_def)
  have ag: "agent_of_value (ascii ''problem_understanding_agent'') = Some UNDERSTANDING"
    by (simp add: agent_of_value_def)
  show ?thesis
    by (simp add: load_save_checkpoint(2) [OF stored_s_llm(1,2)])
       (simp add: serialize_state_def s_llm_def
          from_serializable_def validate_query_def c v st ag del: domain_value.simps)
qed

theorem checkpoint_round_trip_witness:
  "stored_state s_rev \<and> utf8_state s_rev \<and> typed_state s_rev \<and> PNone \<notin> snd ` set s_rev
   \<and> fst (save_checkpoint w_up no_files s_rev ckpt_path) = None
   \<and> load_checkpoint (snd (save_checkpoint w_up no_files s_rev ckpt_path)) ckpt_path = Inr s_rev
   \<and> typed_state s_init \<and> utf8_state s_init
   \<and> load_checkpoint (snd (save_checkpoint w_up no_files s_init ckpt_path)) ckpt_path
       = Inr (drop_none s_init)
   \<and> stored_state s_llm \<and> utf8_state s_llm \<and> \<not> typed_state s_llm
   \<and> fst (save_checkpoint w_up no_files s_llm ckpt_path) = None
   \<and> load_checkpoint (snd (save_checkpoint w_up no_files s_llm ckpt_path)) ckpt_path
       = Inr [(ascii ''user_query'', PStr (ascii ''topic'')),
              (ascii ''requirements'',
                 PQuery \<lparr>domain = GENERAL, analysis_intent = OVERVIEW\<rparr>),
              (ascii ''validation_status'', PStatus PENDING),
              (ascii ''current_agent'', PAgent UNDERSTANDING)]
   \<and> map fst (drop_none s_llm)
       = [ascii ''user_query'', ascii ''requirements'', ascii ''validation_status'',
          ascii ''current_agent'']"
proof -
  have n: "PNone \<notin> snd ` set s_rev" by (simp add: s_rev_def)
  note rev = checkpoint_round_trip [OF typed_stored [OF typed_s_rev] utf8_s_rev,
      of w_up no_files ckpt_path]
  from rev have a: "fst (save_checkpoint w_up no_files s_rev ckpt_path) = None"
    by blast
  from rev typed_s_rev n
  have b: "load_checkpoint (snd (save_checkpoint w_up no_files s_rev ckpt_path)) ckpt_path
      = Inr s_rev"
    by blast
  from checkpoint_round_trip [OF typed_stored [OF typed_s_init] utf8_s_init,
      of w_up no_files ckpt_path] typed_s_init
  have c: "load_checkpoint (snd (save_checkpoint w_up no_files s_init ckpt_path)) ckpt_path
       = Inr (drop_none s_init)"
    by blast
  note llm = checkpoint_round_trip [OF stored_s_llm(1,2), of w_up no_files ckpt_path]
  from llm have d: "fst (save_checkpoint w_up no_files s_llm ckpt_path) = None"
    by blast
  from llm load_s_llm
  have "map fst [(ascii ''user_query'', PStr (ascii ''topic'')),
              (ascii ''requirements'',
                 PQuery \<lparr>domain = GENERAL, analysis_intent = OVERVIEW\<rparr>),
              (ascii ''validation_status'', PStatus PENDING),
              (ascii ''current_agent'', PAgent UNDERSTANDING)] = map fst (drop_none s_llm)"
    by blast
  then have e: "map fst (drop_none s_llm)
       = [ascii ''user_query'', ascii ''requirements'', ascii ''validation_status'',
          ascii ''current_agent'']"
    by simp
  from typed_stored [OF typed_s_rev] utf8_s_rev typed_s_rev typed_s_init utf8_s_init n a b c
    stored_s_llm d load_s_llm e
  show ?thesis by simp
qed

text \<open>
  What the reading side makes of a dictionary under \<^verbatim>\<open>requirements\<close> depends on what
  the generator wrote: an intent outside the alias table (here the word for a comparative
  analysis) comes back as \<^verbatim>\<open>overview\<close>, and with a domain outside the seven values
  the snapshot does not load at all.
\<close>

lemma load_generator_requirements:
  "load_checkpoint (snd (save_checkpoint w_up no_files s_llm_intent ckpt_path)) ckpt_path
     = Inr [(ascii ''user_query'', PStr (ascii ''topic'')),
            (ascii ''requirements'', PQuery \<lparr>domain = GENERAL, analysis_intent = OVERVIEW\<rparr>),
            (ascii ''validation_status'', PStatus PENDING),
            (ascii ''current_agent'', PAgent UNDERSTANDING)]"
  "load_checkpoint (snd (save_checkpoint w_up no_files s_llm_domain ckpt_path)) ckpt_path
     = Inl ValidationError"
proof -
  have i: "stored_state s_llm_intent" "utf8_state s_llm_intent"
    by (simp_all add: stored_state_def utf8_state_def s_llm_intent_def stored_entry_def
        typed_entry_def surrogate_def)
  have d: "stored_state s_llm_domain" "utf8_state s_llm_domain"
    by (simp_all add: stored_state_def utf8_state_def s_llm_domain_def stored_entry_def
        typed_entry_def surrogate_def)
  have al: "map_of alias_map [23545, 27604, 20998, 26512] = None"
    by (simp add: alias_map_def ascii_simps)
  have iv: "intent_of_value [23545, 27604, 20998, 26512] = None"
    by (simp add: intent_of_value_def all_intents_def ascii_simps)
  have nm: "find (\<lambda>i. intent_name_lower i = [23545, 27604, 20998, 26512]) all_intents = None"
    by (simp add: all_intents_def ascii_simps)
  have c: "coerce_analysis_intent (JStr [23545, 27604, 20998, 26512]) = OVERVIEW"
    by (simp add: coerce_analysis_intent_def strip_def lower_def is_space_def al iv nm)
  have v: "intent_of_value (ascii ''overview'') = Some OVERVIEW"
    using intent_of_value_value [of OVERVIEW] by simp
  have dv: "domain_of_value (ascii ''finance'') = None"
    by (simp add: domain_of_value_def ascii_simps)
  have c': "coerce_analysis_intent (JStr (ascii ''overview'')) = OVERVIEW"
    using coerce_value [of OVERVIEW] by simp
  have st: "status_of_value (ascii ''pending'') = Some PENDING"
    by (simp add: status_of_value_def)
  have ag: "agent_of_value (ascii ''problem_understanding_agent'') = Some UNDERSTANDING"
    by (simp add: agent_of_value_def)
  show "load_checkpoint (snd (save_checkpoint w_up no_files s_llm_intent ckpt_path)) ckpt_path
     = Inr [(ascii ''user_query'', PStr (ascii ''topic'')),
            (ascii ''requirements'', PQuery \<lparr>domain = GENERAL, analysis_intent = OVERVIEW\<rparr>),
            (ascii ''validation_status'', PStatus PENDING),
            (ascii ''current_agent'', PAgent UNDERSTANDING)]"
    by (simp add: load_save_checkpoint(2) [OF i])
       (simp add: serialize_state_def s_llm_intent_def
          from_serializable_def validate_query_def c v st ag del: domain_value.simps)
  show "load_checkpoint (snd (save_checkpoint w_up no_files s_llm_domain ckpt_path)) ckpt_path
     = Inl ValidationError"
    by (simp add: load_save_checkpoint(2) [OF d])
       (simp add: serialize_state_def s_llm_domain_def
          from_serializable_def validate_query_def c' v dv st ag)
qed

section \<open>Writing the snapshot file\<close>

lemma files_prev_file:
  "files_prev = no_files(ckpt_path \<mapsto> encode (payload w_start s_init))"
  by (simp add: files_prev_def
      load_save_checkpoint(1) [OF typed_stored [OF typed_s_init] utf8_s_init])

lemma dump_refused:
  "i < length cs \<Longrightarrow> list_all utf8_encodable (take i cs) \<Longrightarrow> \<not> utf8_encodable (cs ! i)
     \<Longrightarrow> dump p cs (fs(p \<mapsto> old))
         = (Some UnicodeEncodeError, fs(p \<mapsto> old @ concat (take i cs)))"
proof (induction cs arbitrary: i old)
  case Nil
  then show ?case by simp
next
  case (Cons c cs)
  show ?case
  proof (cases i)
    case 0
    with Cons.prems show ?thesis by simp
  next
    case (Suc j)
    with Cons.prems have c: "utf8_encodable c" and j: "j < length cs"
      and t: "list_all utf8_encodable (take j cs)" and n: "\<not> utf8_encodable (cs ! j)"
      by simp_all
    have "dump p (c # cs) (fs(p \<mapsto> old)) = dump p cs (fs(p \<mapsto> old @ c))"
      using c by (simp only: dump.simps write_chunk_same if_True)
    also have "\<dots> = (Some UnicodeEncodeError, fs(p \<mapsto> (old @ c) @ concat (take j cs)))"
      using j t n by (rule Cons.IH)
    finally show ?thesis
      unfolding Suc by (simp only: take_Suc_Cons concat.simps append_assoc)
  qed
qed

lemma save_checkpoint_interrupted_file:
  assumes "list_all utf8_encodable (take k (chunks (payload w s)))"
  shows "save_checkpoint_interrupted k w fs s p
           = fs(p \<mapsto> concat (take k (chunks (payload w s))))"
  using dump_complete [OF assms, of p fs "[]"]
  by (simp add: save_checkpoint_interrupted_def open_w_def)

lemma chunks_s_cut:
  "take 10 (chunks (payload w_up s_cut)) =
     [[TLBrace], [TStr (ascii ''state'')], [TColon], [TLBrace],
      [TStr (ascii ''user_query'')], [TColon], [TStr (ascii ''topic'')], [TComma],
      [TStr (ascii ''final_report'')], [TColon]]"
  "chunks (payload w_up s_cut) ! 10 = [TStr (ascii ''a report '' @ [55357])]"
  "10 < length (chunks (payload w_up s_cut))"
  by (simp_all add: payload_def serialize_state_def s_cut_def)

lemma chunks_s_rev:
  "take 3 (chunks (payload w_up s_rev)) = [[TLBrace], [TStr (ascii ''state'')], [TColon]]"
  by (simp add: payload_def serialize_state_def s_rev_def)

text \<open>
  C3. The claim says that \<^verbatim>\<open>save_checkpoint\<close> writes the snapshot to a temporary
  path and replaces the target with it, so that a write that stops halfway leaves the
  previous snapshot in place. The code writes into the target itself. Here the target
  holds the snapshot of the initial state, which loads, and no file exists under the
  name with \<^verbatim>\<open>.tmp\<close> appended. A state whose report ends with a lone surrogate is
  saved to the target: the write of the report raises \<^verbatim>\<open>UnicodeEncodeError\<close>, which
  is logged; the call returns; the target now holds the ten chunks written before, the
  previous snapshot is gone and loading raises \<^verbatim>\<open>JSONDecodeError\<close>. No temporary
  file was written. A save of a well-formed state whose process is stopped after three
  chunks leaves the target in the same condition.
\<close>

theorem save_checkpoint_destroys_snapshot:
  "load_checkpoint files_prev ckpt_path = Inr (drop_none s_init)
   \<and> files_prev other_path = None
   \<and> fst (save_checkpoint w_up files_prev s_cut ckpt_path) = Some UnicodeEncodeError
   \<and> snd (save_checkpoint w_up files_prev s_cut ckpt_path) ckpt_path
       = Some [TLBrace, TStr (ascii ''state''), TColon, TLBrace,
               TStr (ascii ''user_query''), TColon, TStr (ascii ''topic''), TComma,
               TStr (ascii ''final_report''), TColon]
   \<and> load_checkpoint (snd (save_checkpoint w_up files_prev s_cut ckpt_path)) ckpt_path
       = Inl JSONDecodeError
   \<and> snd (save_checkpoint w_up files_prev s_cut ckpt_path) other_path = None
   \<and> save_checkpoint_interrupted 3 w_up files_prev s_rev ckpt_path ckpt_path
       = Some [TLBrace, TStr (ascii ''state''), TColon]
   \<and> load_checkpoint (save_checkpoint_interrupted 3 w_up files_prev s_rev ckpt_path) ckpt_path
       = Inl JSONDecodeError"
proof -
  have a: "load_checkpoint files_prev ckpt_path = Inr (drop_none s_init)"
    unfolding files_prev_def using typed_s_init utf8_s_init by (rule load_save_typed)
  have ne: "other_path \<noteq> ckpt_path"
    by (simp add: other_path_def ckpt_path_def)
  then have o: "files_prev other_path = None"
    by (simp add: files_prev_file no_files_def)
  have e: "list_all utf8_encodable (take 10 (chunks (payload w_up s_cut)))"
    by (simp add: chunks_s_cut(1) utf8_encodable_def)
  have n: "\<not> utf8_encodable (chunks (payload w_up s_cut) ! 10)"
    by (simp add: chunks_s_cut(2) utf8_encodable_def surrogate_def)
  from dump_refused [OF chunks_s_cut(3) e n, of ckpt_path files_prev "[]"]
  have s: "save_checkpoint w_up files_prev s_cut ckpt_path
      = (Some UnicodeEncodeError,
         files_prev(ckpt_path \<mapsto>
           [TLBrace, TStr (ascii ''state''), TColon, TLBrace,
            TStr (ascii ''user_query''), TColon, TStr (ascii ''topic''), TComma,
            TStr (ascii ''final_report''), TColon]))"
    by (simp add: save_checkpoint_def open_w_def chunks_s_cut(1))
  have e3: "list_all utf8_encodable (take 3 (chunks (payload w_up s_rev)))"
    by (simp add: chunks_s_rev utf8_encodable_def)
  have i: "save_checkpoint_interrupted 3 w_up files_prev s_rev ckpt_path
      = files_prev(ckpt_path \<mapsto> [TLBrace, TStr (ascii ''state''), TColon])"
    by (simp add: save_checkpoint_interrupted_file [OF e3] chunks_s_rev)
  have d: "json_loads [TLBrace, TStr (ascii ''state''), TColon] = None"
    "json_loads [TLBrace, TStr (ascii ''state''), TColon, TLBrace,
               TStr (ascii ''user_query''), TColon, TStr (ascii ''topic''), TComma,
               TStr (ascii ''final_report''), TColon] = None"
    by (simp_all add: json_loads_def)
  from a o ne s i d show ?thesis
    by (simp add: load_checkpoint_def)
qed

section \<open>The fan-out over the sections\<close>

text \<open>Every sequence of choices hands out each task once.\<close>

lemma remove_nth:
  assumes "i < length l"
  shows "length (take i l @ drop (Suc i) l) = length l - 1"
    and "insert (l ! i) (set (take i l @ drop (Suc i) l)) = set l"
    and "distinct l \<Longrightarrow> distinct (take i l @ drop (Suc i) l) \<and> l ! i \<notin> set (take i l @ drop (Suc i) l)"
proof -
  from assms show "length (take i l @ drop (Suc i) l) = length l - 1" by simp
  from assms have l: "l = take i l @ l ! i # drop (Suc i) l" by (rule id_take_nth_drop)
  have "set l = set (take i l @ l ! i # drop (Suc i) l)" using l by simp
  then show "insert (l ! i) (set (take i l @ drop (Suc i) l)) = set l" by simp
  assume "distinct l"
  then have "distinct (take i l @ l ! i # drop (Suc i) l)" using l by simp
  then show "distinct (take i l @ drop (Suc i) l) \<and> l ! i \<notin> set (take i l @ drop (Suc i) l)"
    by auto
qed

lemma schedule_length [simp]: "length (schedule cs ts) = length ts"
proof (induction cs ts rule: schedule.induct)
  case (3 c cs t ts)
  let ?l = "t # ts" and ?i = "c mod length (t # ts)"
  have i: "?i < length ?l" by simp
  from 3 [OF refl] remove_nth(1) [OF i] show ?case by (simp add: Let_def)
qed simp_all

lemma schedule_set [simp]: "set (schedule cs ts) = set ts"
proof (induction cs ts rule: schedule.induct)
  case (3 c cs t ts)
  let ?l = "t # ts" and ?i = "c mod length (t # ts)"
  have i: "?i < length ?l" by simp
  have "set (schedule (c # cs) ?l) = insert (?l ! ?i) (set (take ?i ?l @ drop (Suc ?i) ?l))"
    using 3 [OF refl] by (simp add: Let_def)
  also have "\<dots> = set ?l" using i by (rule remove_nth(2))
  finally show ?case .
qed simp_all

lemma schedule_distinct: "distinct ts \<Longrightarrow> distinct (schedule cs ts)"
proof (induction cs ts rule: schedule.induct)
  case (3 c cs t ts)
  let ?l = "t # ts" and ?i = "c mod length (t # ts)"
  have i: "?i < length ?l" by simp
  from remove_nth(3) [OF i "3.prems"]
  have d: "distinct (take ?i ?l @ drop (Suc ?i) ?l)"
    and n: "?l ! ?i \<notin> set (take ?i ?l @ drop (Suc ?i) ?l)" by simp_all
  from 3(1) [OF refl d] n show ?case by (simp add: Let_def)
qed simp_all

lemma schedule_map: "map f (schedule cs ts) = schedule cs (map f ts)"
proof (induction cs ts rule: schedule.induct)
  case (3 c cs t ts)
  let ?l = "t # ts" and ?i = "c mod length (t # ts)"
  have i: "?i < length ?l" by simp
  have "map f (schedule (c # cs) ?l)
      = f (?l ! ?i) # schedule cs (map f (take ?i ?l @ drop (Suc ?i) ?l))"
    using 3 [OF refl] by (simp add: Let_def)
  also have "f (?l ! ?i) = map f ?l ! ?i" using i by (simp only: nth_map)
  also have "map f (take ?i ?l @ drop (Suc ?i) ?l)
      = take ?i (map f ?l) @ drop (Suc ?i) (map f ?l)"
    by (simp only: map_append take_map drop_map)
  finally show ?case by (simp add: Let_def)
qed simp_all

text \<open>Collecting the results: the draft grows, no other key changes.\<close>

lemma update_section_draft_report_ok:
  assumes "get_or_none st ''draft_report'' = PNone \<or> (\<exists>d. get_or_none st ''draft_report'' = PStr d)"
  shows "\<exists>st'. update_section_draft_report st t c = Some st'
      \<and> (\<exists>d. get_or_none st' ''draft_report'' = PStr d)
      \<and> (\<forall>k. k \<noteq> ''draft_report'' \<longrightarrow> dict_get st' k = dict_get st k)"
  using assms
  by (auto simp: update_section_draft_report_def py_or_def get_or_none_def)

lemma collect_results_all:
  assumes "get_or_none st ''draft_report'' = PNone \<or> (\<exists>d. get_or_none st ''draft_report'' = PStr d)"
    and "\<forall>f \<in> set futures. \<exists>c. snd f = Returns c"
  shows "\<exists>st'. collect_results futures st ps = (Returns (ps @ map (PStr \<circ> fst) futures), st')
      \<and> (\<forall>k. k \<noteq> ''draft_report'' \<longrightarrow> dict_get st' k = dict_get st k)"
  using assms
proof (induction futures arbitrary: st ps)
  case Nil
  then show ?case by simp
next
  case (Cons f futures)
  obtain t res where f: "f = (t, res)" by (cases f)
  with Cons.prems(2) obtain c where c: "res = Returns c" by auto
  from update_section_draft_report_ok [OF Cons.prems(1), of t c] obtain st1 where
    u: "update_section_draft_report st t c = Some st1"
    and d: "\<exists>d. get_or_none st1 ''draft_report'' = PStr d"
    and k: "\<forall>k. k \<noteq> ''draft_report'' \<longrightarrow> dict_get st1 k = dict_get st k"
    by blast
  from d have d': "get_or_none st1 ''draft_report'' = PNone
      \<or> (\<exists>d. get_or_none st1 ''draft_report'' = PStr d)" by blast
  from Cons.prems(2) have r: "\<forall>f \<in> set futures. \<exists>c. snd f = Returns c" by simp
  from Cons.IH [OF d' r, of "ps @ [PStr t]"] obtain st' where
    "collect_results futures st1 (ps @ [PStr t])
       = (Returns ((ps @ [PStr t]) @ map (PStr \<circ> fst) futures), st')"
    and "\<forall>k. k \<noteq> ''draft_report'' \<longrightarrow> dict_get st' k = dict_get st1 k"
    by blast
  with f c u k show ?case by simp
qed

lemma collect_results_raises:
  assumes "get_or_none st ''draft_report'' = PNone \<or> (\<exists>d. get_or_none st ''draft_report'' = PStr d)"
    and "\<forall>f \<in> set futures. snd f \<noteq> IllTyped"
    and "\<exists>f \<in> set futures. \<exists>e. snd f = Raises e"
  shows "\<exists>e st'. collect_results futures st ps = (Raises e, st')
      \<and> (\<forall>k. k \<noteq> ''draft_report'' \<longrightarrow> dict_get st' k = dict_get st k)"
  using assms
proof (induction futures arbitrary: st ps)
  case Nil
  then show ?case by simp
next
  case (Cons f futures)
  obtain t res where f: "f = (t, res)" by (cases f)
  show ?case
  proof (cases res)
    case (Returns c)
    from update_section_draft_report_ok [OF Cons.prems(1), of t c] obtain st1 where
      u: "update_section_draft_report st t c = Some st1"
      and d: "\<exists>d. get_or_none st1 ''draft_report'' = PStr d"
      and k: "\<forall>k. k \<noteq> ''draft_report'' \<longrightarrow> dict_get st1 k = dict_get st k"
      by blast
    from d have d': "get_or_none st1 ''draft_report'' = PNone
        \<or> (\<exists>d. get_or_none st1 ''draft_report'' = PStr d)" by blast
    from Cons.prems(2) have r: "\<forall>f \<in> set futures. snd f \<noteq> IllTyped" by simp
    from Cons.prems(3) f Returns have x: "\<exists>f \<in> set futures. \<exists>e. snd f = Raises e" by auto
    from Cons.IH [OF d' r x, of "ps @ [PStr t]"] obtain e st' where
      "collect_results futures st1 (ps @ [PStr t]) = (Raises e, st')"
      and "\<forall>k. k \<noteq> ''draft_report'' \<longrightarrow> dict_get st' k = dict_get st1 k"
      by blast
    with f Returns u k show ?thesis by simp
  next
    case (Raises e)
    with f show ?thesis by simp
  next
    case IllTyped
    with f Cons.prems(2) show ?thesis by simp
  qed
qed

text \<open>What the worker of the \<open>i\<close>-th task returns.\<close>

lemma generate_final_content_reply:
  assumes "dict_get st ''requirements'' = Some rq" and "i < length tasks"
  shows "generate_final_content w st tasks i =
     (case llm w (length (calls w) + i) of
        Reply response \<Rightarrow> Returns response
      | Failure e \<Rightarrow>
          Raises (msg_llm_failed_1 @ ascii ''agent.knowledge_retrieval'' @ msg_llm_failed_2 @ e))"
  using assms
  by (simp add: generate_final_content_def call_llm_sync_def llm_generate_def min_def
      split: reply.splits)

lemma knowledge_fanout_run:
  fixes w :: world and env :: fanout_env and state :: pydict
  assumes st: "dict_get state ''structure'' = Some (PStructure r)"
    and proc: "dict_get state ''processed_sections'' = Some (PList [])"
    and q: "dict_get state ''user_query'' = Some (PStr query)"
    and c: "1 \<le> section_concurrency env"
    and se: "search_error env = None"
  defines "tasks \<equiv> map title (sections r)"
  defines "started \<equiv>
     (if tasks = [] then state
      else merge state
        [(''active_section'', PStr (tasks ! (last_writer env mod length tasks))),
         (''last_updated'', PDatetime (now w))])"
  defines "futures \<equiv>
     schedule (completion_choices env)
       (map (\<lambda>i. (tasks ! i, generate_final_content w started tasks i)) [0..<length tasks])"
  shows "knowledge_retrieval_node env w state =
     (case collect_results futures started [] of
        (Returns processed_sections', state') \<Rightarrow>
          (Returns (merge state'
             [(''current_agent'', PAgent KNOWLEDGE),
              (''last_updated'', PDatetime (now w)),
              (''warnings'',
                 (case dict_get state' ''warnings'' of None \<Rightarrow> PList [] | Some ws \<Rightarrow> ws)),
              (''processed_sections'', PList processed_sections')]),
           w\<lparr>calls := calls w @ map section_call tasks\<rparr>)
      | (Raises e, state') \<Rightarrow>
          (Returns (knowledge_error_state (w\<lparr>calls := calls w @ map section_call tasks\<rparr>)
             state' e),
           w\<lparr>calls := calls w @ map section_call tasks\<rparr>)
      | (IllTyped, state') \<Rightarrow> (IllTyped, w\<lparr>calls := calls w @ map section_call tasks\<rparr>))"
proof -
  from c have c': "\<not> section_concurrency env \<le> 0" by simp
  show ?thesis
    unfolding knowledge_retrieval_node_def tasks_def started_def futures_def
    by (simp add: get_list_def get_truthy_def st proc q c' se Let_def del: merge_Cons)
qed




end
